theory Spec2Isabelle
  imports Main
begin

section \<open>JavaScript values\<close>

text \<open>
  The plugin handles plain documents: the result of a document's \<open>toObject()\<close>, a query, a
  \<open>$set\<close> patch. A value is \<open>undefined\<close>, \<open>null\<close>, a boolean, a number, a string, a
  \<open>Date\<close> (its time value in milliseconds), an array or a plain object. An object is the
  list of its own properties in the order in which JavaScript enumerates them: the keys
  that are array indices first, in ascending order, then the other keys in the order in
  which they were created. Strings are lists of 8-bit characters. Numbers are the integers
  that a JavaScript number holds exactly and prints in decimal, those of magnitude below
  \<open>2^53\<close>; a \<open>Date\<close> is a valid one, of magnitude up to \<open>8.64e15\<close>. Where a number
  or a date beyond these bounds would be printed or read, the model answers \<open>NotModelled\<close>.
\<close>

datatype jsval =
    JUndef
  | JNull
  | JBool bool
  | JNum int
  | JStr string
  | JDate int
  | JArr "jsval list"
  | JObj "(string \<times> jsval) list"

type_synonym obj = "(string \<times> jsval) list"

datatype error =
    TypeError
  | SyntaxError
  | CallbackAlreadyCalled
  | NotModelled

text \<open>\<open>o[k]\<close> on a plain object: a key that is not there reads as \<open>undefined\<close>.\<close>

fun obj_get :: "obj \<Rightarrow> string \<Rightarrow> jsval" where
  "obj_get [] k = JUndef"
| "obj_get ((k', v) # kvs) k = (if k' = k then v else obj_get kvs k)"

text \<open>
  A key is an array index when it is the decimal text, without a leading zero, of an
  integer from \<open>0\<close> to \<open>2^32 - 2\<close>.
\<close>

definition is_digit :: "char \<Rightarrow> bool" where
  "is_digit c = (48 \<le> (of_char c :: nat) \<and> (of_char c :: nat) \<le> 57)"

definition digits_val :: "string \<Rightarrow> int" where
  "digits_val ds = foldl (\<lambda>a d. 10 * a + int (of_char d - 48)) 0 ds"

definition is_index :: "string \<Rightarrow> bool" where
  "is_index k =
     (k \<noteq> [] \<and> list_all is_digit k \<and> (k = ''0'' \<or> hd k \<noteq> CHR ''0'')
      \<and> digits_val k \<le> 4294967294)"

text \<open>Whether a new key \<open>k\<close> is enumerated before the key \<open>k'\<close> of an older property.\<close>

definition key_before :: "string \<Rightarrow> string \<Rightarrow> bool" where
  "key_before k k' = (is_index k \<and> (\<not> is_index k' \<or> digits_val k < digits_val k'))"

text \<open>
  \<open>o[k] = v\<close>: an existing key keeps its place; a new key that is an array index goes to its
  place among the indices, any other new key goes last.
\<close>

fun obj_set :: "(string \<times> 'a) list \<Rightarrow> string \<Rightarrow> 'a \<Rightarrow> (string \<times> 'a) list" where
  "obj_set [] k v = [(k, v)]"
| "obj_set ((k', v') # kvs) k v =
     (if k' = k then (k, v) # kvs
      else if key_before k k' \<and> k \<notin> fst ` set kvs then (k, v) # (k', v') # kvs
      else (k', v') # obj_set kvs k v)"

text \<open>Truthiness, as \<open>if (x)\<close>, \<open>!x\<close>, \<open>a || b\<close> and \<open>a && b\<close> read it.\<close>

fun truthy :: "jsval \<Rightarrow> bool" where
  "truthy JUndef = False"
| "truthy JNull = False"
| "truthy (JBool b) = b"
| "truthy (JNum n) = (n \<noteq> 0)"
| "truthy (JStr s) = (s \<noteq> [])"
| "truthy (JDate t) = True"
| "truthy (JArr xs) = True"
| "truthy (JObj kvs) = True"

text \<open>\<open>typeof x === 'object'\<close>: true of \<open>null\<close>, dates, arrays and objects.\<close>

fun typeof_object :: "jsval \<Rightarrow> bool" where
  "typeof_object JNull = True"
| "typeof_object (JDate t) = True"
| "typeof_object (JArr xs) = True"
| "typeof_object (JObj kvs) = True"
| "typeof_object v = False"

text \<open>
  \<open>a !== b\<close>. Primitives compare by type and value. Dates, arrays and objects compare by
  identity; the two operands of the plugin's comparison come from two different snapshots
  of a document, so two of them are never the same object.
\<close>

fun strict_neq :: "jsval \<Rightarrow> jsval \<Rightarrow> bool" where
  "strict_neq JUndef b = (b \<noteq> JUndef)"
| "strict_neq JNull b = (b \<noteq> JNull)"
| "strict_neq (JBool x) b = (b \<noteq> JBool x)"
| "strict_neq (JNum x) b = (b \<noteq> JNum x)"
| "strict_neq (JStr x) b = (b \<noteq> JStr x)"
| "strict_neq a b = True"

text \<open>
  The names every plain object inherits from \<open>Object.prototype\<close>. They answer to \<open>k in o\<close>
  and \<open>o[k]\<close> although \<open>o\<close> has no such property of its own.
\<close>

definition object_prototype_names :: "string list" where
  "object_prototype_names =
     [''constructor'', ''toString'', ''toLocaleString'', ''valueOf'', ''hasOwnProperty'',
      ''isPrototypeOf'', ''propertyIsEnumerable'', ''__proto__'', ''__defineGetter__'',
      ''__defineSetter__'', ''__lookupGetter__'', ''__lookupSetter__'']"

text \<open>
  \<open>o[k]\<close> and \<open>o[k] = v\<close> on any value. Reading from or writing to \<open>undefined\<close> or \<open>null\<close>
  throws a \<open>TypeError\<close>, and so does writing to another primitive, since the file is in
  strict mode. Reading an inherited name gives a function, and functions, like the
  properties of arrays, dates and primitives, are outside the model of values; so is
  writing to \<open>__proto__\<close>, which sets the prototype and creates no property.
\<close>

fun get_prop :: "jsval \<Rightarrow> string \<Rightarrow> error + jsval" where
  "get_prop (JObj kvs) k =
     (if k \<notin> fst ` set kvs \<and> k \<in> set object_prototype_names then Inl NotModelled
      else Inr (obj_get kvs k))"
| "get_prop JUndef k = Inl TypeError"
| "get_prop JNull k = Inl TypeError"
| "get_prop v k = Inl NotModelled"

fun set_prop :: "jsval \<Rightarrow> string \<Rightarrow> jsval \<Rightarrow> error + jsval" where
  "set_prop (JObj kvs) k v =
     (if k = ''__proto__'' then Inl NotModelled else Inr (JObj (obj_set kvs k v)))"
| "set_prop (JArr xs) k v = Inl NotModelled"
| "set_prop (JDate t) k v = Inl NotModelled"
| "set_prop b k v = Inl TypeError"

section \<open>JSON.stringify\<close>

abbreviation dquote :: char where "dquote \<equiv> CHR 0x22"
abbreviation bslash :: char where "bslash \<equiv> CHR 0x5C"
abbreviation squote :: char where "squote \<equiv> CHR 0x27"
abbreviation dollar :: char where "dollar \<equiv> CHR 0x24"

definition digit_char :: "nat \<Rightarrow> char" where
  "digit_char d = ''0123456789abcdef'' ! d"

fun show_nat :: "nat \<Rightarrow> string" where
  "show_nat n = (if n < 10 then [digit_char n] else show_nat (n div 10) @ [digit_char (n mod 10)])"

text \<open>
  \<open>Number.prototype.toString\<close>, which \<open>JSON.stringify\<close> uses too: the decimal digits of an
  integer that a number holds exactly. Larger numbers, which are rounded and from \<open>1e21\<close>
  on printed with an exponent, are not modelled.
\<close>

definition Number_toString :: "int \<Rightarrow> error + string" where
  "Number_toString i =
     (if \<bar>i\<bar> \<le> 9007199254740991
      then Inr (if i < 0 then CHR ''-'' # show_nat (nat (- i)) else show_nat (nat i))
      else Inl NotModelled)"

text \<open>A number padded with zeros on the left to a width, as the date fields are.\<close>

definition pad :: "nat \<Rightarrow> int \<Rightarrow> string" where
  "pad w i = (let s = show_nat (nat i) in replicate (w - length s) CHR ''0'' @ s)"

text \<open>
  \<open>Date.prototype.toISOString\<close>, which \<open>JSON.stringify\<close> calls through \<open>toJSON\<close>: the
  calendar date of the day number, and the time of day, in UTC, for a valid date.
\<close>

definition iso_text :: "int \<Rightarrow> string" where
  "iso_text t =
     (let days = t div 86400000; ms = t mod 86400000;
          z = days + 719468; era = z div 146097; doe = z mod 146097;
          yoe = (doe - doe div 1460 + doe div 36524 - doe div 146096) div 365;
          doy = doe - (365 * yoe + yoe div 4 - yoe div 100);
          mp = (5 * doy + 2) div 153;
          d = doy - (153 * mp + 2) div 5 + 1;
          m = (if mp < 10 then mp + 3 else mp - 9);
          y = yoe + era * 400 + (if m \<le> 2 then 1 else 0);
          year = (if 0 \<le> y \<and> y \<le> 9999 then pad 4 y
                  else (if y < 0 then ''-'' else ''+'') @ pad 6 \<bar>y\<bar>)
      in year @ ''-'' @ pad 2 m @ ''-'' @ pad 2 d @ ''T'' @ pad 2 (ms div 3600000) @ '':''
           @ pad 2 (ms mod 3600000 div 60000) @ '':'' @ pad 2 (ms mod 60000 div 1000) @ ''.''
           @ pad 3 (ms mod 1000) @ ''Z'')"

definition toISOString :: "int \<Rightarrow> error + string" where
  "toISOString t = (if \<bar>t\<bar> \<le> 8640000000000000 then Inr (iso_text t) else Inl NotModelled)"

text \<open>
  The quoted form of a string: the quote and the backslash are escaped, the control
  characters are written \<open>\b \t \n \f \r\<close> or \<open>\u00XX\<close>.
\<close>

definition escape_char :: "char \<Rightarrow> string" where
  "escape_char c =
     (if c = dquote then [bslash, dquote]
      else if c = bslash then [bslash, bslash]
      else if c = CHR 0x08 then [bslash, CHR ''b'']
      else if c = CHR 0x09 then [bslash, CHR ''t'']
      else if c = CHR 0x0A then [bslash, CHR ''n'']
      else if c = CHR 0x0C then [bslash, CHR ''f'']
      else if c = CHR 0x0D then [bslash, CHR ''r'']
      else if (of_char c :: nat) < 32
        then [bslash, CHR ''u'', CHR ''0'', CHR ''0'',
              digit_char (of_char c div 16), digit_char (of_char c mod 16)]
      else [c])"

definition quote :: "string \<Rightarrow> string" where
  "quote s = dquote # concat (map escape_char s) @ [dquote]"

fun join_comma :: "string list \<Rightarrow> string" where
  "join_comma [] = []"
| "join_comma [s] = s"
| "join_comma (s # t # ts) = s @ CHR '','' # join_comma (t # ts)"

text \<open>
  \<open>JSON.stringify(v)\<close>; \<open>None\<close> is the result \<open>undefined\<close>. An \<open>undefined\<close> element of an
  array is written \<open>null\<close>, an \<open>undefined\<close> property of an object is left out.
\<close>

fun stringify :: "jsval \<Rightarrow> error + string option"
  and stringify_elems :: "jsval list \<Rightarrow> error + string list"
  and stringify_members :: "obj \<Rightarrow> error + string list" where
  "stringify JUndef = Inr None"
| "stringify JNull = Inr (Some ''null'')"
| "stringify (JBool b) = Inr (Some (if b then ''true'' else ''false''))"
| "stringify (JNum n) = map_sum id Some (Number_toString n)"
| "stringify (JStr s) = Inr (Some (quote s))"
| "stringify (JDate t) = map_sum id (\<lambda>s. Some (quote s)) (toISOString t)"
| "stringify (JArr xs) =
     map_sum id (\<lambda>ss. Some (CHR ''['' # join_comma ss @ '']'')) (stringify_elems xs)"
| "stringify (JObj kvs) =
     map_sum id (\<lambda>ss. Some (CHR ''{'' # join_comma ss @ ''}'')) (stringify_members kvs)"
| "stringify_elems [] = Inr []"
| "stringify_elems (x # xs) =
     (case stringify x of
        Inl e \<Rightarrow> Inl e
      | Inr r \<Rightarrow>
          map_sum id (Cons (case r of None \<Rightarrow> ''null'' | Some s \<Rightarrow> s)) (stringify_elems xs))"
| "stringify_members [] = Inr []"
| "stringify_members ((k, v) # kvs) =
     (case stringify v of
        Inl e \<Rightarrow> Inl e
      | Inr None \<Rightarrow> stringify_members kvs
      | Inr (Some s) \<Rightarrow> map_sum id (Cons (quote k @ CHR '':'' # s)) (stringify_members kvs))"

section \<open>JSON.parse\<close>

text \<open>
  The text is cut into tokens, and the tokens are read by a machine with a stack of the
  arrays and objects that are still open. A property is created as \<open>o[k] = v\<close> creates it,
  so that the keys of an object that is read are in the order of enumeration, array
  indices first. A number with a fraction or an exponent, and a
  \<open>\uXXXX\<close> escape above code 255, are outside the model of values.
\<close>

datatype token =
    TLBrace | TRBrace | TLBrack | TRBrack | TComma | TColon
  | TStr string | TNum int | TTrue | TFalse | TNull

definition is_space :: "char \<Rightarrow> bool" where
  "is_space c = (c = CHR 0x20 \<or> c = CHR 0x09 \<or> c = CHR 0x0A \<or> c = CHR 0x0D)"

definition hex_val :: "char \<Rightarrow> nat option" where
  "hex_val c =
     (let n = (of_char c :: nat) in
      if 48 \<le> n \<and> n \<le> 57 then Some (n - 48)
      else if 97 \<le> n \<and> n \<le> 102 then Some (n - 87)
      else if 65 \<le> n \<and> n \<le> 70 then Some (n - 55)
      else None)"

definition hex4 :: "char \<Rightarrow> char \<Rightarrow> char \<Rightarrow> char \<Rightarrow> nat option" where
  "hex4 a b c d =
     (case (hex_val a, hex_val b, hex_val c, hex_val d) of
        (Some w, Some x, Some y, Some z) \<Rightarrow> Some (((w * 16 + x) * 16 + y) * 16 + z)
      | _ \<Rightarrow> None)"

definition unescape :: "char \<Rightarrow> char option" where
  "unescape e =
     (if e = dquote then Some dquote
      else if e = bslash then Some bslash
      else if e = CHR ''/'' then Some CHR ''/''
      else if e = CHR ''b'' then Some (CHR 0x08)
      else if e = CHR ''t'' then Some (CHR 0x09)
      else if e = CHR ''n'' then Some (CHR 0x0A)
      else if e = CHR ''f'' then Some (CHR 0x0C)
      else if e = CHR ''r'' then Some (CHR 0x0D)
      else None)"

text \<open>An escape, after its backslash: the character it stands for and what follows it.\<close>

definition lex_escape :: "string \<Rightarrow> error + (char \<times> string)" where
  "lex_escape cs =
     (case cs of
        [] \<Rightarrow> Inl SyntaxError
      | e # cs' \<Rightarrow>
          if e = CHR ''u'' then
            (case cs' of
               h1 # h2 # h3 # h4 # cs'' \<Rightarrow>
                 (case hex4 h1 h2 h3 h4 of
                    None \<Rightarrow> Inl SyntaxError
                  | Some n \<Rightarrow> if n < 256 then Inr (char_of n, cs'') else Inl NotModelled)
             | _ \<Rightarrow> Inl SyntaxError)
          else
            (case unescape e of
               None \<Rightarrow> Inl SyntaxError
             | Some ch \<Rightarrow> Inr (ch, cs')))"

lemma lex_escape_shorter: "lex_escape cs = Inr (ch, rest) \<Longrightarrow> length rest < length cs"
  unfolding lex_escape_def
  by (auto split: list.splits if_splits option.splits)

text \<open>The rest of a string literal, after its opening quote: the string and what follows it.\<close>

function lex_string :: "string \<Rightarrow> string \<Rightarrow> error + (string \<times> string)" where
  "lex_string acc [] = Inl SyntaxError"
| "lex_string acc (c # cs) =
     (if c = dquote then Inr (rev acc, cs)
      else if c = bslash then
        (case lex_escape cs of
           Inl e \<Rightarrow> Inl e
         | Inr (ch, cs') \<Rightarrow> lex_string (ch # acc) cs')
      else if (of_char c :: nat) < 32 then Inl SyntaxError
      else lex_string (c # acc) cs)"
  by pat_completeness auto
termination
proof (relation "measure (\<lambda>(acc, s). length s)")
  show "wf (measure (\<lambda>(acc, s). length s))"
    by simp
next
  fix acc :: string and c cs x2 x y
  assume "lex_escape cs = Inr x2" and "(x, y) = x2"
  then have "length y < length cs"
    using lex_escape_shorter [of cs x y] by simp
  then show "((x # acc, y), (acc, c # cs)) \<in> measure (\<lambda>(acc, s). length s)"
    by simp
next
  fix acc :: string and c cs
  show "((c # acc, cs), (acc, c # cs)) \<in> measure (\<lambda>(acc, s). length s)"
    by simp
qed

text \<open>
  A number: an optional minus sign and digits without a leading zero, of an integer that
  a number holds exactly.
\<close>

definition lex_number :: "string \<Rightarrow> error + (int \<times> string)" where
  "lex_number s =
     (let neg = (s \<noteq> [] \<and> hd s = CHR ''-'');
          body = (if neg then tl s else s);
          ds = takeWhile is_digit body;
          rest = dropWhile is_digit body
      in if ds = [] \<or> (1 < length ds \<and> hd ds = CHR ''0'') then Inl SyntaxError
         else if rest \<noteq> [] \<and> hd rest \<in> {CHR ''.'', CHR ''e'', CHR ''E''} then Inl NotModelled
         else if 9007199254740991 < digits_val ds then Inl NotModelled
         else Inr (if neg then - digits_val ds else digits_val ds, rest))"

lemma lex_string_shorter: "lex_string acc s = Inr (r, rest) \<Longrightarrow> length rest < length s"
proof (induction acc s rule: lex_string.induct)
  case (1 acc)
  then show ?case by simp
next
  case (2 acc c cs)
  show ?case
  proof (cases "c = dquote")
    case True
    with "2.prems" show ?thesis by simp
  next
    case nq: False
    show ?thesis
    proof (cases "c = bslash")
      case True
      with nq "2.prems" obtain ch cs' where
        e: "lex_escape cs = Inr (ch, cs')" and l: "lex_string (ch # acc) cs' = Inr (r, rest)"
        by (auto split: sum.splits)
      from "2.IH"(1) [OF nq True e refl l] lex_escape_shorter [OF e]
      show ?thesis by simp
    next
      case nb: False
      with nq "2.prems" have lo: "\<not> (of_char c :: nat) < 32"
        and l: "lex_string (c # acc) cs = Inr (r, rest)"
        by (auto split: if_splits)
      from "2.IH"(2) [OF nq nb lo l] show ?thesis by simp
    qed
  qed
qed

lemma dropWhile_shorter:
  assumes "takeWhile P b \<noteq> []"
  shows "length (dropWhile P b) < length b"
proof (cases b)
  case Nil
  with assms show ?thesis by simp
next
  case (Cons a list)
  with assms have "P a" by (simp split: if_splits)
  moreover have "length (dropWhile P list) \<le> length list"
    by (rule length_dropWhile_le)
  ultimately show ?thesis using Cons by simp
qed

lemma lex_number_shorter: "lex_number s = Inr (n, rest) \<Longrightarrow> length rest < length s"
proof -
  assume a: "lex_number s = Inr (n, rest)"
  define body where "body = (if s \<noteq> [] \<and> hd s = CHR ''-'' then tl s else s)"
  from a have ne: "takeWhile is_digit body \<noteq> []" and r: "rest = dropWhile is_digit body"
    unfolding lex_number_def Let_def body_def by (auto split: if_splits)
  have "length body \<le> length s"
    unfolding body_def by simp
  with dropWhile_shorter [OF ne] r show ?thesis by simp
qed

function lex :: "string \<Rightarrow> error + token list" where
  "lex [] = Inr []"
| "lex (c # cs) =
     (if is_space c then lex cs
      else if c = CHR ''{'' then map_sum id (Cons TLBrace) (lex cs)
      else if c = CHR ''}'' then map_sum id (Cons TRBrace) (lex cs)
      else if c = CHR ''['' then map_sum id (Cons TLBrack) (lex cs)
      else if c = CHR '']'' then map_sum id (Cons TRBrack) (lex cs)
      else if c = CHR '','' then map_sum id (Cons TComma) (lex cs)
      else if c = CHR '':'' then map_sum id (Cons TColon) (lex cs)
      else if c = dquote then
        (case lex_string [] cs of
           Inl e \<Rightarrow> Inl e
         | Inr (s, rest) \<Rightarrow> map_sum id (Cons (TStr s)) (lex rest))
      else if c = CHR ''-'' \<or> is_digit c then
        (case lex_number (c # cs) of
           Inl e \<Rightarrow> Inl e
         | Inr (n, rest) \<Rightarrow> map_sum id (Cons (TNum n)) (lex rest))
      else if take 4 (c # cs) = ''true'' then map_sum id (Cons TTrue) (lex (drop 3 cs))
      else if take 5 (c # cs) = ''false'' then map_sum id (Cons TFalse) (lex (drop 4 cs))
      else if take 4 (c # cs) = ''null'' then map_sum id (Cons TNull) (lex (drop 3 cs))
      else Inl SyntaxError)"
  by pat_completeness auto
termination
  apply (relation "measure length")
    apply simp_all
  subgoal for c cs b x y
    using lex_string_shorter [of "[]" cs x y] by simp
  subgoal for c cs b x y
    using lex_number_shorter [of "c # cs" x y] by simp
  done

datatype frame = FArr "jsval list" | FObj obj string

datatype pmode =
    PValue | PValueOrClose | PKeyOrClose | PKey | PColon | PNext | PDone jsval

text \<open>
  A finished value goes to the container on top of the stack, or is the result. A key that
  comes twice keeps its place and has its last value.
\<close>

fun deliver :: "jsval \<Rightarrow> frame list \<Rightarrow> pmode \<times> frame list" where
  "deliver v [] = (PDone v, [])"
| "deliver v (FArr xs # st) = (PNext, FArr (v # xs) # st)"
| "deliver v (FObj kvs k # st) = (PNext, FObj (obj_set kvs k v) k # st)"

fun start_value :: "token \<Rightarrow> frame list \<Rightarrow> (pmode \<times> frame list) option" where
  "start_value (TStr s) st = Some (deliver (JStr s) st)"
| "start_value (TNum n) st = Some (deliver (JNum n) st)"
| "start_value TTrue st = Some (deliver (JBool True) st)"
| "start_value TFalse st = Some (deliver (JBool False) st)"
| "start_value TNull st = Some (deliver JNull st)"
| "start_value TLBrack st = Some (PValueOrClose, FArr [] # st)"
| "start_value TLBrace st = Some (PKeyOrClose, FObj [] [] # st)"
| "start_value t st = None"

fun close_frame :: "token \<Rightarrow> frame list \<Rightarrow> (pmode \<times> frame list) option" where
  "close_frame TRBrack (FArr xs # st) = Some (deliver (JArr (rev xs)) st)"
| "close_frame TRBrace (FObj kvs k # st) = Some (deliver (JObj kvs) st)"
| "close_frame t st = None"

fun read_key :: "token \<Rightarrow> frame list \<Rightarrow> (pmode \<times> frame list) option" where
  "read_key (TStr k) (FObj kvs k' # st) = Some (PColon, FObj kvs k # st)"
| "read_key t st = None"

fun step :: "pmode \<times> frame list \<Rightarrow> token \<Rightarrow> (pmode \<times> frame list) option" where
  "step (PValue, st) t = start_value t st"
| "step (PValueOrClose, st) t = (if t = TRBrack then close_frame t st else start_value t st)"
| "step (PKeyOrClose, st) t = (if t = TRBrace then close_frame t st else read_key t st)"
| "step (PKey, st) t = read_key t st"
| "step (PColon, st) t = (if t = TColon then Some (PValue, st) else None)"
| "step (PNext, st) t =
     (if t = TComma then
        (case st of
           FArr xs # st' \<Rightarrow> Some (PValue, st)
         | FObj kvs k # st' \<Rightarrow> Some (PKey, st)
         | [] \<Rightarrow> None)
      else close_frame t st)"
| "step (PDone v, st) t = None"

fun run :: "pmode \<times> frame list \<Rightarrow> token list \<Rightarrow> (pmode \<times> frame list) option" where
  "run c [] = Some c"
| "run c (t # ts) = (case step c t of None \<Rightarrow> None | Some c' \<Rightarrow> run c' ts)"

definition JSON_parse :: "string \<Rightarrow> error + jsval" where
  "JSON_parse s =
     (case lex s of
        Inl e \<Rightarrow> Inl e
      | Inr ts \<Rightarrow>
          (case run (PValue, []) ts of
             Some (PDone v, []) \<Rightarrow> Inr v
           | _ \<Rightarrow> Inl SyntaxError))"

section \<open>The sanitizer\<close>

text \<open>
  \<open>String.prototype.replace\<close> with a string pattern: the first occurrence only. The two
  replacement strings of the plugin hold no \<open>$\<close>, so they are inserted as they are.
\<close>

fun replace_first :: "string \<Rightarrow> string \<Rightarrow> string \<Rightarrow> string" where
  "replace_first pat rep [] = (if pat = [] then rep else [])"
| "replace_first pat rep (c # cs) =
     (if take (length pat) (c # cs) = pat then rep @ drop (length pat) (c # cs)
      else c # replace_first pat rep cs)"

text \<open>
  \<open>sanitizeObj\<close>: the JSON text of the object, without the first \<open>"$\<close> and then without the
  first \<open>'$\<close>, parsed again. \<open>JSON.stringify\<close> of \<open>undefined\<close> is \<open>undefined\<close>, which has no
  \<open>replace\<close>.
\<close>

definition sanitizeObj :: "jsval \<Rightarrow> error + jsval" where
  "sanitizeObj obj =
     (case stringify obj of
        Inl e \<Rightarrow> Inl e
      | Inr None \<Rightarrow> Inl TypeError
      | Inr (Some s) \<Rightarrow>
          JSON_parse
            (replace_first [squote, dollar] [squote] (replace_first [dquote, dollar] [dquote] s)))"

section \<open>The history model cache (history-model.js)\<close>

text \<open>
  The options of the plugin. A metadata value is a field name, a function of two arguments
  or a function of three arguments; the last is given by what it passes to its callback,
  the error and the data, or \<open>None\<close> when it never calls back. The callback is called
  before the function returns.
\<close>

datatype extractor =
    FieldName string
  | SyncFn "jsval \<Rightarrow> jsval \<Rightarrow> jsval"
  | AsyncFn "jsval \<Rightarrow> jsval \<Rightarrow> (jsval \<times> jsval) option"

record metadata_pair =
  m_key :: string
  m_value :: extractor
  m_schema :: "string option"

record modifiedBy_options =
  schemaType :: string
  contextPath :: string
  blacklist :: "string list option"

record options =
  customCollectionName :: "string option"
  customDiffAlgo :: "(string \<Rightarrow> jsval \<Rightarrow> jsval \<Rightarrow> jsval) option"
  diffOnly :: bool
  metadata :: "metadata_pair list option"
  modifiedBy :: "modifiedBy_options option"
  includeCollectionName :: bool
  indexes :: "obj list option"
  historyConnection :: "string option"

text \<open>
  A model as \<open>mongoose.model\<close> or \<open>historyConnection.model\<close> returns it: its name, the
  schema and the indexes it was built from, its connection, and the number of models
  registered before it, which tells two registrations apart.
\<close>

record store_handle =
  sh_id :: nat
  sh_name :: string
  sh_schema :: "(string \<times> string) list"
  sh_indexes :: "obj list"
  sh_connection :: "string option"

text \<open>The module's \<open>historyModels\<close> object, and the registrations made so far.\<close>

record model_cache =
  historyModels :: "(string \<times> store_handle) list"
  registered :: "store_handle list"

text \<open>What \<open>historyModels[collectionName]\<close> is: a cached model, or an inherited function.\<close>

datatype cached = Model store_handle | Inherited string

definition schemaObject :: "options \<Rightarrow> (string \<times> string) list" where
  "schemaObject opts =
     (let base = [(''date'', ''Date''), (''op'', ''String''), (''doc'', ''Mixed''),
                  (''diff'', ''Mixed''), (''additionalFields'', ''Mixed''),
                  (''docId'', ''String''), (''col'', ''String'')];
          with_user = (case modifiedBy opts of
                         None \<Rightarrow> base
                       | Some mb \<Rightarrow> obj_set base ''modifiedBy'' (schemaType mb))
      in case metadata opts of
           None \<Rightarrow> with_user
         | Some ms \<Rightarrow>
             foldl (\<lambda>so m. obj_set so (m_key m)
                             (case m_schema m of None \<Rightarrow> ''Mixed'' | Some t \<Rightarrow> t))
               with_user ms)"

definition HistoryModel :: "string \<Rightarrow> options \<Rightarrow> model_cache \<Rightarrow> cached \<times> model_cache" where
  "HistoryModel collectionName opts mc =
     (let mc' =
        (if \<not> (collectionName \<in> fst ` set (historyModels mc)
                \<or> collectionName \<in> set object_prototype_names)
         then
           (let h = \<lparr>sh_id = length (registered mc), sh_name = collectionName,
                     sh_schema = schemaObject opts,
                     sh_indexes = (case indexes opts of None \<Rightarrow> [] | Some is \<Rightarrow> is),
                     sh_connection = historyConnection opts\<rparr>
            in mc\<lparr>historyModels := obj_set (historyModels mc) collectionName h,
                   registered := registered mc @ [h]\<rparr>)
         else mc)
      in (case map_of (historyModels mc') collectionName of
            Some h \<Rightarrow> Model h
          | None \<Rightarrow> Inherited collectionName,
          mc'))"

definition historyCollectionName :: "string \<Rightarrow> string option \<Rightarrow> string" where
  "historyCollectionName collectionName custom =
     (case custom of Some c \<Rightarrow> c | None \<Rightarrow> collectionName @ ''_history'')"

section \<open>The plugin (mongoose-history.js)\<close>

subsection \<open>The diff of an update\<close>

text \<open>
  \<open>defaultDiffAlgo\<close>. The module \<open>deepDiff\<close> it calls for two objects is not part of the
  sources at hand and is a parameter, called as the source calls it.
\<close>

definition defaultDiffAlgo ::
  "(jsval \<Rightarrow> jsval \<Rightarrow> bool \<Rightarrow> jsval) \<Rightarrow> string \<Rightarrow> jsval \<Rightarrow> jsval \<Rightarrow> jsval" where
  "defaultDiffAlgo deepDiff key newValue originalValue =
     (if key = ''updatedAt'' then JNull
      else if truthy originalValue \<and> \<not> truthy newValue then JStr ''null''
      else if \<not> truthy originalValue \<and> truthy newValue then newValue
      else
        (case (newValue, originalValue) of
           (JDate tn, JDate t0) \<Rightarrow> (if tn \<noteq> t0 then newValue else JNull)
         | _ \<Rightarrow>
             if typeof_object newValue \<and> typeof_object originalValue
             then deepDiff originalValue newValue True
             else if strict_neq newValue originalValue then newValue
             else JNull))"

text \<open>\<open>(options && options.customDiffAlgo) || defaultDiffAlgo\<close>.\<close>

definition diffAlgo_of ::
  "(jsval \<Rightarrow> jsval \<Rightarrow> bool \<Rightarrow> jsval) \<Rightarrow> options \<Rightarrow> string \<Rightarrow> jsval \<Rightarrow> jsval \<Rightarrow> jsval" where
  "diffAlgo_of deepDiff opts =
     (case customDiffAlgo opts of Some f \<Rightarrow> f | None \<Rightarrow> defaultDiffAlgo deepDiff)"

text \<open>\<open>applyObjectPatch\<close>: every key of the patch is written to the document.\<close>

definition applyObjectPatch :: "obj \<Rightarrow> obj \<Rightarrow> obj" where
  "applyObjectPatch doc patch = foldl (\<lambda>d k. obj_set d k (obj_get patch k)) doc (map fst patch)"

text \<open>
  The loop of \<open>_saveHistory\<close> over the keys of the new document. \<open>originalDoc[key]\<close> throws
  when there is no original document. Writing the key \<open>__proto__\<close> to the diff is outside
  the model.
\<close>

fun diff_loop ::
  "(string \<Rightarrow> jsval \<Rightarrow> jsval \<Rightarrow> jsval) \<Rightarrow> obj \<Rightarrow> jsval \<Rightarrow> string list \<Rightarrow> obj \<Rightarrow> error + obj" where
  "diff_loop algo newDoc originalDoc [] diff = Inr diff"
| "diff_loop algo newDoc originalDoc (key # keys) diff =
     (case get_prop originalDoc key of
        Inl e \<Rightarrow> Inl e
      | Inr originalValue \<Rightarrow>
          (let customDiff = algo key (obj_get newDoc key) originalValue
           in if truthy customDiff
              then (if key = ''__proto__'' then Inl NotModelled
                    else diff_loop algo newDoc originalDoc keys
                           (obj_set diff key
                              (if customDiff = JStr ''null'' then JNull else customDiff)))
              else diff_loop algo newDoc originalDoc keys diff))"

subsection \<open>The actor and the state around the plugin\<close>

text \<open>
  What the request context holds under a path. An object is held by reference: it lives in
  a store under an address, and a write through one holder is seen by every other holder.
  Any other value, \<open>undefined\<close> and \<open>null\<close> among them, is held as it is.
\<close>

datatype actor = Val jsval | Ref nat

fun actor_truthy :: "actor \<Rightarrow> bool" where
  "actor_truthy (Val v) = truthy v"
| "actor_truthy (Ref a) = True"

text \<open>
  The state the plugin reads and writes: \<open>contextService.get\<close>, the variable \<open>currentUser\<close>
  of the plugin's closure (\<open>null\<close> at first), the store of objects and the clock.
\<close>

record world =
  w_ambient :: "string \<Rightarrow> actor"
  w_currentUser :: actor
  w_heap :: "nat \<Rightarrow> obj"
  w_now :: int

text \<open>
  A history document is a plain object built field by field; the field \<open>modifiedBy\<close> holds
  the actor, every other field a value.
\<close>

datatype hval = HVal jsval | HActor actor

type_synonym historyDoc = "(string \<times> hval) list"

text \<open>
  \<open>_modifiedBy[key] = undefined\<close>, on the object the actor refers to. The key \<open>__proto__\<close>
  is outside the model.
\<close>

fun blacklist_key :: "actor \<Rightarrow> string \<Rightarrow> (nat \<Rightarrow> obj) \<Rightarrow> error + (nat \<Rightarrow> obj)" where
  "blacklist_key (Ref a) key h =
     (if key = ''__proto__'' then Inl NotModelled
      else Inr (h(a := obj_set (h a) key JUndef)))"
| "blacklist_key (Val v) key h =
     (case set_prop v key JUndef of Inl e \<Rightarrow> Inl e | Inr v' \<Rightarrow> Inl NotModelled)"

fun blacklist_loop :: "actor \<Rightarrow> string list \<Rightarrow> (nat \<Rightarrow> obj) \<Rightarrow> error + (nat \<Rightarrow> obj)" where
  "blacklist_loop m [] h = Inr h"
| "blacklist_loop m (key # keys) h =
     (case blacklist_key m key h of Inl e \<Rightarrow> Inl e | Inr h' \<Rightarrow> blacklist_loop m keys h')"

definition addModifiedByInfo :: "options \<Rightarrow> world \<Rightarrow> historyDoc \<Rightarrow> error + (historyDoc \<times> world)" where
  "addModifiedByInfo opts w historyDoc =
     (case modifiedBy opts of
        None \<Rightarrow> Inr (historyDoc, w)
      | Some mb \<Rightarrow>
          (let m0 = w_ambient w (contextPath mb);
               m = (if \<not> actor_truthy m0 then w_currentUser w else m0)
           in case (case blacklist mb of
                      None \<Rightarrow> Inr (w_heap w)
                    | Some bl \<Rightarrow> if bl = [] then Inr (w_heap w) else blacklist_loop m bl (w_heap w)) of
                Inl e \<Rightarrow> Inl e
              | Inr h' \<Rightarrow> Inr (obj_set historyDoc ''modifiedBy'' (HActor m), w\<lparr>w_heap := h'\<rparr>)))"

text \<open>\<open>pre('findOne')\<close>, installed when \<open>modifiedBy\<close> is configured.\<close>

definition pre_findOne :: "options \<Rightarrow> world \<Rightarrow> world" where
  "pre_findOne opts w =
     (case modifiedBy opts of
        None \<Rightarrow> w
      | Some mb \<Rightarrow> w\<lparr>w_currentUser := w_ambient w (contextPath mb)\<rparr>)"

subsection \<open>Building the history document\<close>

text \<open>
  \<open>x.toString()\<close>: an array joins its elements with commas, \<open>null\<close> and \<open>undefined\<close>
  elements as the empty string; a plain object is \<open>[object Object]\<close>, unless it has a
  property \<open>toString\<close> of its own, which is a value and cannot be called. The text of a
  date depends on the time zone and is outside the model.
\<close>

fun js_toString :: "jsval \<Rightarrow> error + string"
  and js_join :: "jsval list \<Rightarrow> error + string" where
  "js_toString JUndef = Inl TypeError"
| "js_toString JNull = Inl TypeError"
| "js_toString (JBool b) = Inr (if b then ''true'' else ''false'')"
| "js_toString (JNum n) = Number_toString n"
| "js_toString (JStr s) = Inr s"
| "js_toString (JDate t) = Inl NotModelled"
| "js_toString (JArr xs) = js_join xs"
| "js_toString (JObj kvs) =
     (if ''toString'' \<in> fst ` set kvs then Inl TypeError else Inr ''[object Object]'')"
| "js_join [] = Inr []"
| "js_join (x # xs) =
     (case (if x = JUndef \<or> x = JNull then Inr [] else js_toString x) of
        Inl e \<Rightarrow> Inl e
      | Inr s \<Rightarrow>
          (if xs = [] then Inr s
           else case js_join xs of Inl e \<Rightarrow> Inl e | Inr t \<Rightarrow> Inr (s @ CHR '','' # t)))"

text \<open>
  The \<open>docId\<close> of \<open>createHistoryDoc\<close>: \<open>doc._id || diff._id || null\<close>, and when that is
  truthy its \<open>toString()\<close>, or its JSON text when \<open>toString()\<close> is that of an empty object.
\<close>

definition docId_of :: "jsval \<Rightarrow> jsval \<Rightarrow> error + jsval option" where
  "docId_of doc diff =
     (case get_prop doc ''_id'' of
        Inl e \<Rightarrow> Inl e
      | Inr a \<Rightarrow>
          (case (if truthy a then Inr a
                 else case get_prop diff ''_id'' of
                        Inl e \<Rightarrow> Inl e
                      | Inr b \<Rightarrow> Inr (if truthy b then b else JNull)) of
             Inl e \<Rightarrow> Inl e
           | Inr docId \<Rightarrow>
               if truthy docId then
                 (case js_toString docId of
                    Inl e \<Rightarrow> Inl e
                  | Inr s \<Rightarrow>
                      if s = ''[object Object]''
                      then (case stringify docId of
                              Inl e \<Rightarrow> Inl e
                            | Inr None \<Rightarrow> Inr (Some JUndef)
                            | Inr (Some t) \<Rightarrow> Inr (Some (JStr t)))
                      else Inr (Some (JStr s)))
               else Inr None))"

text \<open>The copy of the own keys of \<open>additionalFields\<close>.\<close>

definition own_copy :: "obj \<Rightarrow> obj" where
  "own_copy af = foldl (\<lambda>acc k. obj_set acc k (obj_get af k)) [] (map fst af)"

definition createHistoryDoc ::
  "options \<Rightarrow> world \<Rightarrow> jsval \<Rightarrow> jsval \<Rightarrow> string \<Rightarrow> string \<Rightarrow> obj option
     \<Rightarrow> error + (historyDoc \<times> world)" where
  "createHistoryDoc opts w doc diff operation collectionName additionalFields =
     (case sanitizeObj (if truthy doc then doc else JObj []) of
        Inl e \<Rightarrow> Inl e
      | Inr doc1 \<Rightarrow>
     (case sanitizeObj (if truthy diff then diff else JObj []) of
        Inl e \<Rightarrow> Inl e
      | Inr diff1 \<Rightarrow>
     (case set_prop doc1 ''__v'' JUndef of
        Inl e \<Rightarrow> Inl e
      | Inr doc2 \<Rightarrow>
     (case set_prop diff1 ''__v'' JUndef of
        Inl e \<Rightarrow> Inl e
      | Inr diff2 \<Rightarrow>
          (let h0 = [(''doc'', HVal doc2), (''diff'', HVal diff2),
                     (''op'', HVal (JStr operation)), (''date'', HVal (JDate (w_now w)))];
               h1 = (if includeCollectionName opts
                     then obj_set h0 ''col'' (HVal (JStr collectionName)) else h0)
           in case docId_of doc2 diff2 of
                Inl e \<Rightarrow> Inl e
              | Inr docId \<Rightarrow>
                  (let h2 = (case docId of None \<Rightarrow> h1 | Some s \<Rightarrow> obj_set h1 ''docId'' (HVal s))
                   in case addModifiedByInfo opts w h2 of
                        Inl e \<Rightarrow> Inl e
                      | Inr (h3, w') \<Rightarrow>
                          Inr (case additionalFields of
                                 None \<Rightarrow> h3
                               | Some af \<Rightarrow>
                                   obj_set h3 ''additionalFields'' (HVal (JObj (own_copy af))),
                               w')))))))"

subsection \<open>Metadata and the save\<close>

text \<open>
  \<open>async.each(metadata, iteratee, callback)\<close>, for callbacks that are called before their
  caller returns. The state is the object the metadata is written to, the number of items
  that are done, the first call of the final callback (its error and the object as it is
  then; later calls do nothing), and the exception that ended the loop, if any. The
  callback of an item throws when it is called a second time.
\<close>

record each_state =
  target :: jsval
  completed :: nat
  outcome :: "(jsval \<times> jsval) option"
  thrown :: "error option"

definition call_final :: "jsval \<Rightarrow> each_state \<Rightarrow> each_state" where
  "call_final err st =
     (case outcome st of None \<Rightarrow> st\<lparr>outcome := Some (err, target st)\<rparr> | Some r \<Rightarrow> st)"

definition item_callback :: "nat \<Rightarrow> jsval \<Rightarrow> each_state \<Rightarrow> each_state" where
  "item_callback n err st =
     (if truthy err then call_final err st
      else (let st' = st\<lparr>completed := Suc (completed st)\<rparr>
            in if completed st' = n then call_final JNull st' else st'))"

text \<open>\<open>historyDoc[key] = v\<close> on the object that \<open>setMetadata\<close> was given.\<close>

definition write_key :: "string \<Rightarrow> jsval \<Rightarrow> each_state \<Rightarrow> each_state" where
  "write_key k v st =
     (case set_prop (target st) k v of
        Inl e \<Rightarrow> st\<lparr>thrown := Some e\<rparr>
      | Inr t \<Rightarrow> st\<lparr>target := t\<rparr>)"

text \<open>
  The function that \<open>setMetadata\<close> gives to \<open>async.each\<close>. In the callback of a function of
  three arguments, \<open>if (err) cb(err)\<close> does not return: the data is written and \<open>cb()\<close> is
  called after it.
\<close>

definition iteratee :: "nat \<Rightarrow> jsval \<Rightarrow> jsval \<Rightarrow> metadata_pair \<Rightarrow> each_state \<Rightarrow> each_state" where
  "iteratee n originalDoc newDoc keyValuePair st =
     (case m_value keyValuePair of
        AsyncFn f \<Rightarrow>
          (case f originalDoc newDoc of
             None \<Rightarrow> st
           | Some (err, data) \<Rightarrow>
               (let st1 = (if truthy err then item_callback n err st else st);
                    st2 = write_key (m_key keyValuePair) data st1
                in if thrown st2 \<noteq> None then st2
                   else if truthy err then st2\<lparr>thrown := Some CallbackAlreadyCalled\<rparr>
                   else item_callback n JUndef st2))
      | SyncFn f \<Rightarrow>
          (let st1 = write_key (m_key keyValuePair) (f originalDoc newDoc) st
           in if thrown st1 \<noteq> None then st1 else item_callback n JUndef st1)
      | FieldName name \<Rightarrow>
          (case (if truthy newDoc then get_prop newDoc name else Inr JNull) of
             Inl e \<Rightarrow> st\<lparr>thrown := Some e\<rparr>
           | Inr v \<Rightarrow>
               (let st1 = write_key (m_key keyValuePair) v st
                in if thrown st1 \<noteq> None then st1 else item_callback n JUndef st1)))"

fun each_loop :: "nat \<Rightarrow> jsval \<Rightarrow> jsval \<Rightarrow> metadata_pair list \<Rightarrow> each_state \<Rightarrow> each_state" where
  "each_loop n originalDoc newDoc [] st = st"
| "each_loop n originalDoc newDoc (p # ps) st =
     (if thrown st \<noteq> None then st
      else each_loop n originalDoc newDoc ps (iteratee n originalDoc newDoc p st))"

definition setMetadata :: "metadata_pair list \<Rightarrow> jsval \<Rightarrow> jsval \<Rightarrow> jsval \<Rightarrow> each_state" where
  "setMetadata pairs originalDoc newDoc historyDoc =
     (let st = \<lparr>target = historyDoc, completed = 0, outcome = None, thrown = None\<rparr>
      in if \<not> truthy historyDoc then call_final JUndef st
         else if pairs = [] then call_final JNull st
         else each_loop (length pairs) originalDoc newDoc pairs st)"

text \<open>
  What a hook does to the outside: it hands a history document to the model of a history
  collection to be saved, with \<open>next\<close> as the callback of the save; or it calls \<open>next\<close> with
  an error; or an exception leaves it.
\<close>

datatype event =
    Persist string historyDoc
  | NextError jsval
  | Thrown error

definition doc_of :: "historyDoc \<Rightarrow> jsval" where
  "doc_of h = (case map_of h ''doc'' of Some (HVal v) \<Rightarrow> v | _ \<Rightarrow> JUndef)"

definition with_doc :: "historyDoc \<Rightarrow> jsval \<Rightarrow> historyDoc" where
  "with_doc h v = (if truthy (doc_of h) then obj_set h ''doc'' (HVal v) else h)"

text \<open>
  \<open>saveHistoryModel\<close>: the history document as the metadata left it, and the events. The
  metadata is written to \<open>historyDoc.doc\<close>.
\<close>

definition saveHistoryModel ::
  "options \<Rightarrow> jsval \<Rightarrow> jsval \<Rightarrow> historyDoc \<Rightarrow> string \<Rightarrow> historyDoc \<times> event list" where
  "saveHistoryModel opts originalDoc newDoc historyDoc collectionName =
     (let name = historyCollectionName collectionName (customCollectionName opts)
      in case metadata opts of
           None \<Rightarrow> (historyDoc, [Persist name historyDoc])
         | Some pairs \<Rightarrow>
             (let st = setMetadata pairs originalDoc newDoc (doc_of historyDoc)
              in (with_doc historyDoc (target st),
                  (case outcome st of
                     None \<Rightarrow> []
                   | Some (err, snapshot) \<Rightarrow>
                       if truthy err then [NextError err]
                       else [Persist name (with_doc historyDoc snapshot)])
                  @ (case thrown st of None \<Rightarrow> [] | Some e \<Rightarrow> [Thrown e]))))"

subsection \<open>The hooks\<close>

text \<open>
  A document: \<open>isNew\<close>, the property \<open>_original\<close> (\<open>undefined\<close> when it was never set), the
  result of \<open>toObject()\<close> and \<open>collection.name\<close>.
\<close>

record document =
  d_isNew :: bool
  d_original :: jsval
  d_fields :: obj
  d_collection :: string

record save_result =
  r_historyDoc :: historyDoc
  r_events :: "event list"
  r_world :: world
  r_doc :: document

definition post_init :: "options \<Rightarrow> document \<Rightarrow> document" where
  "post_init opts doc = (if diffOnly opts then doc\<lparr>d_original := JObj (d_fields doc)\<rparr> else doc)"

definition saveHistory ::
  "(jsval \<Rightarrow> jsval \<Rightarrow> bool \<Rightarrow> jsval) \<Rightarrow> options \<Rightarrow> world \<Rightarrow> document \<Rightarrow> string \<Rightarrow> string
     \<Rightarrow> obj option \<Rightarrow> error + save_result" where
  "saveHistory deepDiff opts w doc operation collectionName patchBeforeDiff =
     (let originalDoc = d_original doc;
          doc' = doc\<lparr>d_original := JUndef\<rparr>;
          customDiffAlgo' = diffAlgo_of deepDiff opts
      in if diffOnly opts \<and> \<not> d_isNew doc then
           (let newDoc = (case patchBeforeDiff of
                            None \<Rightarrow> d_fields doc
                          | Some patch \<Rightarrow> applyObjectPatch (d_fields doc) patch)
            in case diff_loop customDiffAlgo' newDoc originalDoc (map fst newDoc)
                      [(''_id'', obj_get newDoc ''_id'')] of
                 Inl e \<Rightarrow> Inl e
               | Inr diff \<Rightarrow>
                   (case createHistoryDoc opts w originalDoc (JObj diff) ''u'' collectionName None of
                      Inl e \<Rightarrow> Inl e
                    | Inr (historyDoc, w') \<Rightarrow>
                        (let (h, evs) = saveHistoryModel opts originalDoc (JObj newDoc) historyDoc
                                          (d_collection doc)
                         in Inr \<lparr>r_historyDoc = h, r_events = evs, r_world = w', r_doc = doc'\<rparr>)))
         else
           (let newDoc = d_fields doc
            in case createHistoryDoc opts w originalDoc (JObj newDoc) operation collectionName None of
                 Inl e \<Rightarrow> Inl e
               | Inr (historyDoc, w') \<Rightarrow>
                   (let (h, evs) = saveHistoryModel opts originalDoc (JObj newDoc) historyDoc
                                     (d_collection doc)
                    in Inr \<lparr>r_historyDoc = h, r_events = evs, r_world = w', r_doc = doc'\<rparr>)))"

text \<open>\<open>pre('save')\<close>: an insert when the document is new, an update otherwise.\<close>

definition pre_save ::
  "(jsval \<Rightarrow> jsval \<Rightarrow> bool \<Rightarrow> jsval) \<Rightarrow> options \<Rightarrow> world \<Rightarrow> document \<Rightarrow> error + save_result" where
  "pre_save deepDiff opts w doc =
     saveHistory deepDiff opts w doc (if d_isNew doc then ''i'' else ''u'') (d_collection doc) None"

text \<open>
  \<open>pre('update')\<close> on a query: \<open>this._update.$set\<close>, \<open>this.getQuery()\<close>, the name of
  \<open>this.mongooseCollection\<close> when there is one, and \<open>this.collection.name\<close>.
\<close>

record query =
  q_set :: jsval
  q_query :: jsval
  q_mongooseCollection :: "string option"
  q_collection :: string

definition pre_update :: "options \<Rightarrow> world \<Rightarrow> query \<Rightarrow> error + (historyDoc \<times> event list \<times> world)" where
  "pre_update opts w q =
     (case (if truthy (q_query q) then sanitizeObj (q_query q) else Inr (JObj [])) of
        Inl e \<Rightarrow> Inl e
      | Inr query \<Rightarrow>
          (let collectionName = (case q_mongooseCollection q of
                                   Some n \<Rightarrow> n
                                 | None \<Rightarrow> q_collection q)
           in case createHistoryDoc opts w query (q_set q) ''u'' collectionName (Some []) of
                Inl e \<Rightarrow> Inl e
              | Inr (historyDoc, w') \<Rightarrow>
                  (let (h, evs) = saveHistoryModel opts query (q_set q) historyDoc collectionName
                   in Inr (h, evs, w'))))"

text \<open>\<open>pre('remove')\<close>: the document as it is, and an empty diff.\<close>

definition pre_remove :: "options \<Rightarrow> world \<Rightarrow> document \<Rightarrow> error + (historyDoc \<times> event list \<times> world)" where
  "pre_remove opts w d =
     (let doc = JObj (d_fields d)
      in case createHistoryDoc opts w doc (JObj []) ''r'' (d_collection d) None of
           Inl e \<Rightarrow> Inl e
         | Inr (historyDoc, w') \<Rightarrow>
             (let (h, evs) = saveHistoryModel opts (JObj (d_fields d)) doc historyDoc (d_collection d)
              in Inr (h, evs, w')))"

section \<open>Example inputs\<close>

text \<open>
  The plugin attached without options; a request with nothing in its context; a new post,
  and the same post later, loaded from the store and changed.
\<close>

definition plain_options :: options where
  "plain_options =
     \<lparr>customCollectionName = None, customDiffAlgo = None, diffOnly = False, metadata = None,
      modifiedBy = None, includeCollectionName = False, indexes = None,
      historyConnection = None\<rparr>"

definition quiet_world :: world where
  "quiet_world =
     \<lparr>w_ambient = (\<lambda>path. Val JUndef), w_currentUser = Val JNull, w_heap = (\<lambda>a. []),
      w_now = 0\<rparr>"

definition new_post :: document where
  "new_post =
     \<lparr>d_isNew = True, d_original = JUndef,
      d_fields = [(''_id'', JStr ''abc''), (''title'', JStr ''A''), (''message'', JStr ''M'')],
      d_collection = ''posts''\<rparr>"

definition diff_options :: options where
  "diff_options = plain_options\<lparr>diffOnly := True\<rparr>"

text \<open>
  A post loaded from the store, where its \<open>_original\<close> was kept, and then changed to the
  fields given.
\<close>

definition loaded_post :: "obj \<Rightarrow> document" where
  "loaded_post changed =
     \<lparr>d_isNew = False,
      d_original = JObj [(''_id'', JStr ''abc''), (''title'', JStr ''A''), (''message'', JStr ''M''),
                         (''updatedAt'', JDate 5)],
      d_fields = changed, d_collection = ''posts''\<rparr>"

text \<open>
  Options with one metadata pair that copies the title; options with one metadata function
  of three arguments that reports an error and data; options that track the actor found
  under \<open>request:userInfo\<close>, with a blacklist or without; and a request whose context holds
  a user object under that path.
\<close>

definition titled_options :: options where
  "titled_options =
     plain_options\<lparr>metadata := Some [\<lparr>m_key = ''title'', m_value = FieldName ''title'', m_schema = None\<rparr>]\<rparr>"

definition failing_options :: options where
  "failing_options =
     plain_options\<lparr>metadata :=
       Some [\<lparr>m_key = ''checked'',
              m_value = AsyncFn (\<lambda>originalDoc newDoc. Some (JStr ''failed'', JStr ''partial'')),
              m_schema = None\<rparr>]\<rparr>"

definition user_options :: "string list option \<Rightarrow> options" where
  "user_options bl =
     plain_options\<lparr>modifiedBy :=
       Some \<lparr>schemaType = ''Mixed'', contextPath = ''request:userInfo'', blacklist = bl\<rparr>\<rparr>"

definition user_world :: world where
  "user_world =
     \<lparr>w_ambient = (\<lambda>path. if path = ''request:userInfo'' then Ref 0 else Val JUndef),
      w_currentUser = Val JNull,
      w_heap = (\<lambda>a. if a = 0 then [(''name'', JStr ''ann''), (''password'', JStr ''secret'')] else []),
      w_now = 0\<rparr>"

section \<open>Properties\<close>

subsection \<open>Objects\<close>

lemma map_of_obj_set: "map_of (obj_set h k v) k' = (if k' = k then Some v else map_of h k')"
  by (induction h) auto

lemma obj_get_obj_set: "obj_get (obj_set kvs k v) k' = (if k' = k then v else obj_get kvs k')"
  by (induction kvs) auto

lemma dom_obj_set: "dom (map_of (obj_set h k v)) = insert k (dom (map_of h))"
  by (auto simp: map_of_obj_set split: if_splits)

lemma keys_obj_set: "fst ` set (obj_set h k v) = insert k (fst ` set h)"
  using dom_obj_set [of h k v] by (simp add: dom_map_of_conv_image_fst)

lemma obj_set_fresh:
  "k \<notin> fst ` set kvs \<Longrightarrow> \<not> is_index k \<Longrightarrow> obj_set kvs k v = kvs @ [(k, v)]"
  by (induction kvs) (auto simp: key_before_def)

lemma set_prop_Inr:
  "set_prop x k v = Inr y \<Longrightarrow> \<exists>kvs. x = JObj kvs \<and> y = JObj (obj_set kvs k v)"
  by (cases x) (auto split: if_splits)

text \<open>The key \<open>__v\<close> is no array index: where it is new, it goes last.\<close>

lemma key_before_v: "key_before ''__v'' k = False"
  by (simp add: key_before_def is_index_def is_digit_def)

text \<open>
  From here on an assignment is unfolded only where a proof asks for it; the lemmas above
  say what it does to a lookup and to the keys.
\<close>

declare obj_set.simps [simp del]

subsection \<open>The fields of a history document\<close>

lemma addModifiedByInfo_other:
  assumes "addModifiedByInfo opts w h = Inr (h', w')" and "k \<noteq> ''modifiedBy''"
  shows "map_of h' k = map_of h k"
  using assms unfolding addModifiedByInfo_def Let_def
  by (auto split: option.splits sum.splits if_splits simp: map_of_obj_set)

text \<open>
  The fields that \<open>createHistoryDoc\<close> sets from its arguments, given the sanitized \<open>doc\<close>
  and \<open>diff\<close> and the \<open>docId\<close>.
\<close>

definition base_fields ::
  "options \<Rightarrow> world \<Rightarrow> obj \<Rightarrow> obj \<Rightarrow> string \<Rightarrow> string \<Rightarrow> jsval option \<Rightarrow> string \<Rightarrow> hval option" where
  "base_fields opts w d f operation collectionName docId k =
     (if k = ''doc'' then Some (HVal (JObj (obj_set d ''__v'' JUndef)))
      else if k = ''diff'' then Some (HVal (JObj (obj_set f ''__v'' JUndef)))
      else if k = ''op'' then Some (HVal (JStr operation))
      else if k = ''date'' then Some (HVal (JDate (w_now w)))
      else if k = ''col'' \<and> includeCollectionName opts then Some (HVal (JStr collectionName))
      else if k = ''docId'' then map_option HVal docId
      else None)"

lemma createHistoryDoc_Inr:
  assumes "createHistoryDoc opts w doc diff operation collectionName additionalFields = Inr (h, w')"
  shows "\<exists>d f docId.
           sanitizeObj (if truthy doc then doc else JObj []) = Inr (JObj d)
         \<and> sanitizeObj (if truthy diff then diff else JObj []) = Inr (JObj f)
         \<and> docId_of (JObj (obj_set d ''__v'' JUndef)) (JObj (obj_set f ''__v'' JUndef)) = Inr docId
         \<and> (\<forall>k. k \<noteq> ''modifiedBy'' \<and> k \<noteq> ''additionalFields'' \<longrightarrow>
                  map_of h k = base_fields opts w d f operation collectionName docId k)"
proof -
  define h0 where "h0 doc2 diff2 =
      [(''doc'', HVal doc2), (''diff'', HVal diff2),
       (''op'', HVal (JStr operation)), (''date'', HVal (JDate (w_now w)))]" for doc2 diff2
  define h1 where "h1 doc2 diff2 =
      (if includeCollectionName opts
       then obj_set (h0 doc2 diff2) ''col'' (HVal (JStr collectionName)) else h0 doc2 diff2)"
    for doc2 diff2
  from assms obtain doc1 diff1 doc2 diff2 docId h3 where
    s1: "sanitizeObj (if truthy doc then doc else JObj []) = Inr doc1" and
    s2: "sanitizeObj (if truthy diff then diff else JObj []) = Inr diff1" and
    p1: "set_prop doc1 ''__v'' JUndef = Inr doc2" and
    p2: "set_prop diff1 ''__v'' JUndef = Inr diff2" and
    di: "docId_of doc2 diff2 = Inr docId" and
    am: "addModifiedByInfo opts w
           (case docId of
              None \<Rightarrow> h1 doc2 diff2
            | Some s \<Rightarrow> obj_set (h1 doc2 diff2) ''docId'' (HVal s)) = Inr (h3, w')" and
    hh: "h = (case additionalFields of
                None \<Rightarrow> h3
              | Some af \<Rightarrow> obj_set h3 ''additionalFields'' (HVal (JObj (own_copy af))))"
    unfolding createHistoryDoc_def Let_def h0_def h1_def
    by (auto split: sum.splits)
  from set_prop_Inr [OF p1] obtain d where
    d: "doc1 = JObj d" "doc2 = JObj (obj_set d ''__v'' JUndef)"
    by blast
  from set_prop_Inr [OF p2] obtain f where
    f: "diff1 = JObj f" "diff2 = JObj (obj_set f ''__v'' JUndef)"
    by blast
  have "map_of h k = base_fields opts w d f operation collectionName docId k"
    if "k \<noteq> ''modifiedBy''" "k \<noteq> ''additionalFields''" for k
  proof -
    have "map_of h k = map_of h3 k"
      using that hh by (simp add: map_of_obj_set split: option.splits)
    also have "\<dots> = base_fields opts w d f operation collectionName docId k"
      using addModifiedByInfo_other [OF am that(1)] d f
      by (simp add: base_fields_def h0_def h1_def map_of_obj_set split: option.splits)
    finally show ?thesis .
  qed
  with s1 s2 di d f show ?thesis by blast
qed

lemma map_of_with_doc: "k \<noteq> ''doc'' \<Longrightarrow> map_of (with_doc h v) k = map_of h k"
  by (simp add: with_doc_def map_of_obj_set)

lemma doc_of_with_doc: "truthy (doc_of h) \<Longrightarrow> map_of (with_doc h v) ''doc'' = Some (HVal v)"
  by (simp add: with_doc_def map_of_obj_set)

lemma saveHistoryModel_other:
  "k \<noteq> ''doc'' \<Longrightarrow> map_of (fst (saveHistoryModel opts originalDoc newDoc h c)) k = map_of h k"
  by (simp add: saveHistoryModel_def Let_def map_of_with_doc split: option.splits)

lemma saveHistoryModel_doc:
  assumes "map_of h ''doc'' = Some (HVal (JObj d))"
  shows "map_of (fst (saveHistoryModel opts originalDoc newDoc h c)) ''doc'' =
           Some (HVal (case metadata opts of
                         None \<Rightarrow> JObj d
                       | Some pairs \<Rightarrow> target (setMetadata pairs originalDoc newDoc (JObj d))))"
proof -
  have "doc_of h = JObj d"
    using assms by (simp add: doc_of_def)
  then show ?thesis
    using assms by (simp add: saveHistoryModel_def Let_def doc_of_with_doc split: option.splits)
qed

subsection \<open>Inserts\<close>

lemma saveHistory_insert:
  assumes "d_isNew doc"
    and "saveHistory deepDiff opts w doc operation collectionName patch = Inr r"
  shows "\<exists>h w'.
           createHistoryDoc opts w (d_original doc) (JObj (d_fields doc)) operation collectionName None
             = Inr (h, w')
         \<and> r_historyDoc r =
             fst (saveHistoryModel opts (d_original doc) (JObj (d_fields doc)) h (d_collection doc))
         \<and> r_events r =
             snd (saveHistoryModel opts (d_original doc) (JObj (d_fields doc)) h (d_collection doc))
         \<and> r_world r = w'"
  using assms unfolding saveHistory_def Let_def
  by (auto split: sum.splits prod.splits)

text \<open>
  C1 (as amended). For every save of a new document, the history document that
  \<open>createHistoryDoc\<close> builds has the operation \<open>i\<close>; its \<open>diff\<close> is the sanitized new state
  of the document, whole, with \<open>__v\<close> set to \<open>undefined\<close>; its \<open>doc\<close> is the sanitized
  original snapshot, the empty object when there is none, with \<open>__v\<close> set to \<open>undefined\<close>.
  The operation and the \<open>diff\<close> are those of the history document at the end of the hook,
  and when no metadata is configured the document built is the one handed to the model
  of the history collection.
\<close>

theorem insert_record:
  assumes new: "d_isNew doc" and ok: "pre_save deepDiff opts w doc = Inr r"
  shows "\<exists>orig new h w'.
           sanitizeObj (if truthy (d_original doc) then d_original doc else JObj []) = Inr (JObj orig)
         \<and> sanitizeObj (JObj (d_fields doc)) = Inr (JObj new)
         \<and> createHistoryDoc opts w (d_original doc) (JObj (d_fields doc)) ''i'' (d_collection doc) None
             = Inr (h, w')
         \<and> map_of h ''op'' = Some (HVal (JStr ''i''))
         \<and> map_of h ''doc'' = Some (HVal (JObj (obj_set orig ''__v'' JUndef)))
         \<and> map_of h ''diff'' = Some (HVal (JObj (obj_set new ''__v'' JUndef)))
         \<and> map_of (r_historyDoc r) ''op'' = Some (HVal (JStr ''i''))
         \<and> map_of (r_historyDoc r) ''diff'' = Some (HVal (JObj (obj_set new ''__v'' JUndef)))
         \<and> (metadata opts = None \<longrightarrow>
               r_historyDoc r = h
             \<and> r_events r =
                 [Persist (historyCollectionName (d_collection doc) (customCollectionName opts)) h])"
proof -
  from ok new have "saveHistory deepDiff opts w doc ''i'' (d_collection doc) None = Inr r"
    by (simp add: pre_save_def)
  from saveHistory_insert [OF new this] obtain h w' where
    c: "createHistoryDoc opts w (d_original doc) (JObj (d_fields doc)) ''i'' (d_collection doc) None
          = Inr (h, w')" and
    r: "r_historyDoc r =
          fst (saveHistoryModel opts (d_original doc) (JObj (d_fields doc)) h (d_collection doc))" and
    e: "r_events r =
          snd (saveHistoryModel opts (d_original doc) (JObj (d_fields doc)) h (d_collection doc))"
    by blast
  from createHistoryDoc_Inr [OF c] obtain orig new docId where
    s1: "sanitizeObj (if truthy (d_original doc) then d_original doc else JObj []) = Inr (JObj orig)" and
    s2: "sanitizeObj (JObj (d_fields doc)) = Inr (JObj new)" and
    f: "\<And>k. k \<noteq> ''modifiedBy'' \<Longrightarrow> k \<noteq> ''additionalFields'' \<Longrightarrow>
           map_of h k = base_fields opts w orig new ''i'' (d_collection doc) docId k"
    by auto
  have h1: "map_of h ''op'' = Some (HVal (JStr ''i''))"
    and h2: "map_of h ''doc'' = Some (HVal (JObj (obj_set orig ''__v'' JUndef)))"
    and h3: "map_of h ''diff'' = Some (HVal (JObj (obj_set new ''__v'' JUndef)))"
    by (simp_all add: f base_fields_def)
  have r1: "map_of (r_historyDoc r) ''op'' = Some (HVal (JStr ''i''))"
    unfolding r by (simp add: saveHistoryModel_other h1)
  have r2: "map_of (r_historyDoc r) ''diff'' = Some (HVal (JObj (obj_set new ''__v'' JUndef)))"
    unfolding r by (simp add: saveHistoryModel_other h3)
  have r3: "metadata opts = None \<longrightarrow>
              r_historyDoc r = h
            \<and> r_events r =
                [Persist (historyCollectionName (d_collection doc) (customCollectionName opts)) h]"
    unfolding r e by (simp add: saveHistoryModel_def)
  show ?thesis
    by (rule exI [of _ orig], rule exI [of _ new], rule exI [of _ h], rule exI [of _ w'])
       (intro conjI s1 s2 c h1 h2 h3 r1 r2 r3)
qed

lemma pre_save_new_post:
  "map_sum id (\<lambda>r. (r_historyDoc r, r_events r))
     (pre_save (\<lambda>a b c. JNull) diff_options quiet_world new_post) =
   Inr ([(''doc'', HVal (JObj [(''__v'', JUndef)])),
         (''diff'', HVal (JObj [(''_id'', JStr ''abc''), (''title'', JStr ''A''),
                                (''message'', JStr ''M''), (''__v'', JUndef)])),
         (''op'', HVal (JStr ''i'')), (''date'', HVal (JDate 0)),
         (''docId'', HVal (JStr ''abc''))],
        [Persist ''posts_history''
           [(''doc'', HVal (JObj [(''__v'', JUndef)])),
            (''diff'', HVal (JObj [(''_id'', JStr ''abc''), (''title'', JStr ''A''),
                                   (''message'', JStr ''M''), (''__v'', JUndef)])),
            (''op'', HVal (JStr ''i'')), (''date'', HVal (JDate 0)),
            (''docId'', HVal (JStr ''abc''))]])"
  unfolding diff_options_def plain_options_def quiet_world_def new_post_def
  by code_simp

theorem insert_record_witness:
  "\<exists>r. pre_save (\<lambda>a b c. JNull) diff_options quiet_world new_post = Inr r
      \<and> map_of (r_historyDoc r) ''op'' = Some (HVal (JStr ''i''))
      \<and> map_of (r_historyDoc r) ''diff'' =
          Some (HVal (JObj [(''_id'', JStr ''abc''), (''title'', JStr ''A''),
                            (''message'', JStr ''M''), (''__v'', JUndef)]))
      \<and> map_of (r_historyDoc r) ''doc'' = Some (HVal (JObj [(''__v'', JUndef)]))
      \<and> r_events r = [Persist ''posts_history'' (r_historyDoc r)]"
proof -
  have new: "d_isNew new_post"
    by (simp add: new_post_def)
  obtain r where ok: "pre_save (\<lambda>a b c. JNull) diff_options quiet_world new_post = Inr r"
    using pre_save_new_post
    by (cases "pre_save (\<lambda>a b c. JNull) diff_options quiet_world new_post") auto
  have s1: "sanitizeObj (if truthy (d_original new_post) then d_original new_post else JObj [])
              = Inr (JObj [])"
    unfolding new_post_def by code_simp
  have s2: "sanitizeObj (JObj (d_fields new_post)) = Inr (JObj (d_fields new_post))"
    unfolding new_post_def by code_simp
  have v1: "obj_set [] ''__v'' JUndef = [(''__v'', JUndef)]"
    by code_simp
  have v2: "obj_set (d_fields new_post) ''__v'' JUndef =
              [(''_id'', JStr ''abc''), (''title'', JStr ''A''), (''message'', JStr ''M''),
               (''__v'', JUndef)]"
    unfolding new_post_def by code_simp
  have m: "metadata diff_options = None"
    and n: "historyCollectionName (d_collection new_post) (customCollectionName diff_options)
              = ''posts_history''"
    by (simp_all add: diff_options_def plain_options_def new_post_def historyCollectionName_def)
  from insert_record [OF new ok] s1 s2 v1 v2 m n ok show ?thesis
    by auto
qed

text \<open>
  C1 (as stated) fails: the \<open>doc\<close> of the record of an insert is not the sanitized new
  state. For the new post, whose sanitized state is the post itself, it is the empty
  object with \<open>__v\<close>.
\<close>

theorem insert_doc_is_not_new_state:
  "sanitizeObj (JObj (d_fields new_post)) = Inr (JObj (d_fields new_post)) \<and>
   map_sum id (\<lambda>r. map_of (r_historyDoc r) ''doc'')
     (pre_save (\<lambda>a b c. JNull) plain_options quiet_world new_post) =
   Inr (Some (HVal (JObj [(''__v'', JUndef)])))"
  unfolding plain_options_def quiet_world_def new_post_def
  by code_simp

subsection \<open>Updates in diff-only mode\<close>

text \<open>What the loop stores for a result of the diff algorithm: \<open>null\<close> for the string \<open>null\<close>.\<close>

definition resolved :: "jsval \<Rightarrow> jsval" where
  "resolved customDiff = (if customDiff = JStr ''null'' then JNull else customDiff)"

lemma diff_loop_Inr:
  assumes "diff_loop algo newDoc originalDoc keys diff0 = Inr diff"
  shows "(\<forall>k\<in>set keys. \<exists>ov. get_prop originalDoc k = Inr ov) \<and>
         (\<forall>k. map_of diff k =
            (if k \<in> set keys \<and> truthy (algo k (obj_get newDoc k) (projr (get_prop originalDoc k)))
             then Some (resolved (algo k (obj_get newDoc k) (projr (get_prop originalDoc k))))
             else map_of diff0 k))"
  using assms
proof (induction keys arbitrary: diff0)
  case Nil
  then show ?case by simp
next
  case (Cons key keys)
  from Cons.prems obtain ov where ov: "get_prop originalDoc key = Inr ov"
    by (auto split: sum.splits)
  let ?c = "algo key (obj_get newDoc key) ov"
  show ?case
  proof (cases "truthy ?c")
    case True
    with Cons.prems ov have
      "diff_loop algo newDoc originalDoc keys (obj_set diff0 key (resolved ?c)) = Inr diff"
      by (simp add: resolved_def Let_def split: if_splits)
    from Cons.IH [OF this] ov True show ?thesis
      by (auto simp: map_of_obj_set)
  next
    case False
    with Cons.prems ov have "diff_loop algo newDoc originalDoc keys diff0 = Inr diff"
      by (simp add: Let_def)
    from Cons.IH [OF this] ov False show ?thesis
      by auto
  qed
qed

lemma saveHistory_update:
  assumes "diffOnly opts" and "\<not> d_isNew doc"
    and "saveHistory deepDiff opts w doc operation collectionName None = Inr r"
  shows "\<exists>diff h w'.
           diff_loop (diffAlgo_of deepDiff opts) (d_fields doc) (d_original doc)
             (map fst (d_fields doc)) [(''_id'', obj_get (d_fields doc) ''_id'')] = Inr diff
         \<and> createHistoryDoc opts w (d_original doc) (JObj diff) ''u'' collectionName None = Inr (h, w')
         \<and> r_historyDoc r =
             fst (saveHistoryModel opts (d_original doc) (JObj (d_fields doc)) h (d_collection doc))
         \<and> r_events r =
             snd (saveHistoryModel opts (d_original doc) (JObj (d_fields doc)) h (d_collection doc))
         \<and> r_world r = w'"
  using assms unfolding saveHistory_def Let_def
  by (auto split: sum.splits prod.splits)

text \<open>A value that is \<open>undefined\<close>, a boolean, a number, a string or a date.\<close>

fun plain_value :: "jsval \<Rightarrow> bool" where
  "plain_value JUndef = True"
| "plain_value (JBool b) = True"
| "plain_value (JNum n) = True"
| "plain_value (JStr s) = True"
| "plain_value (JDate t) = True"
| "plain_value v = False"

lemma defaultDiffAlgo_same: "plain_value v \<Longrightarrow> defaultDiffAlgo deepDiff k v v = JNull"
  by (cases v) (auto simp: defaultDiffAlgo_def)

lemma defaultDiffAlgo_deleted:
  "k \<noteq> ''updatedAt'' \<Longrightarrow> truthy ov \<Longrightarrow> \<not> truthy nv \<Longrightarrow> defaultDiffAlgo deepDiff k nv ov = JStr ''null''"
  by (simp add: defaultDiffAlgo_def)


lemma update_record:
  assumes "diffOnly opts" and "\<not> d_isNew doc" and "pre_save deepDiff opts w doc = Inr r"
  shows "\<exists>diff sdiff.
           diff_loop (diffAlgo_of deepDiff opts) (d_fields doc) (d_original doc)
             (map fst (d_fields doc)) [(''_id'', obj_get (d_fields doc) ''_id'')] = Inr diff
         \<and> (\<forall>k. map_of diff k =
               (if k \<in> fst ` set (d_fields doc)
                   \<and> truthy (diffAlgo_of deepDiff opts k (obj_get (d_fields doc) k)
                               (projr (get_prop (d_original doc) k)))
                then Some (resolved (diffAlgo_of deepDiff opts k (obj_get (d_fields doc) k)
                                       (projr (get_prop (d_original doc) k))))
                else if k = ''_id'' then Some (obj_get (d_fields doc) ''_id'')
                else None))
         \<and> sanitizeObj (JObj diff) = Inr (JObj sdiff)
         \<and> map_of (r_historyDoc r) ''op'' = Some (HVal (JStr ''u''))
         \<and> map_of (r_historyDoc r) ''diff'' = Some (HVal (JObj (obj_set sdiff ''__v'' JUndef)))"
proof -
  let ?algo = "diffAlgo_of deepDiff opts"
  from assms have "saveHistory deepDiff opts w doc ''u'' (d_collection doc) None = Inr r"
    by (simp add: pre_save_def)
  from saveHistory_update [OF assms(1,2) this] obtain diff h w' where
    dl: "diff_loop ?algo (d_fields doc) (d_original doc)
           (map fst (d_fields doc)) [(''_id'', obj_get (d_fields doc) ''_id'')] = Inr diff" and
    c: "createHistoryDoc opts w (d_original doc) (JObj diff) ''u'' (d_collection doc) None = Inr (h, w')" and
    r: "r_historyDoc r =
          fst (saveHistoryModel opts (d_original doc) (JObj (d_fields doc)) h (d_collection doc))"
    by blast
  from diff_loop_Inr [OF dl] have
    m: "map_of diff k =
          (if k \<in> fst ` set (d_fields doc)
              \<and> truthy (?algo k (obj_get (d_fields doc) k) (projr (get_prop (d_original doc) k)))
           then Some (resolved (?algo k (obj_get (d_fields doc) k) (projr (get_prop (d_original doc) k))))
           else if k = ''_id'' then Some (obj_get (d_fields doc) ''_id'')
           else None)" for k
    by simp
  from createHistoryDoc_Inr [OF c] obtain orig sdiff docId where
    s2: "sanitizeObj (JObj diff) = Inr (JObj sdiff)" and
    f: "\<And>k. k \<noteq> ''modifiedBy'' \<Longrightarrow> k \<noteq> ''additionalFields'' \<Longrightarrow>
           map_of h k = base_fields opts w orig sdiff ''u'' (d_collection doc) docId k"
    by auto
  have "map_of (r_historyDoc r) ''op'' = Some (HVal (JStr ''u''))"
    unfolding r by (simp add: saveHistoryModel_other f base_fields_def)
  moreover have "map_of (r_historyDoc r) ''diff'' = Some (HVal (JObj (obj_set sdiff ''__v'' JUndef)))"
    unfolding r by (simp add: saveHistoryModel_other f base_fields_def)
  ultimately show ?thesis
    using dl m s2 by blast
qed

text \<open>
  C2 (as amended). For every update in diff-only mode, the diff that the loop hands to
  \<open>createHistoryDoc\<close> holds \<open>_id\<close> of the new document and, for exactly the fields of the
  new document whose result of the diff algorithm is truthy, that result, with \<open>null\<close> in
  place of the string \<open>null\<close>; a field whose result is falsy is left out. With the default
  algorithm a field other than \<open>_id\<close> that holds the same string, number, boolean or date
  in both documents is left out. The \<open>diff\<close> of the record is the sanitized form of that
  object, with \<open>__v\<close> set to \<open>undefined\<close>.
\<close>

theorem update_diff:
  assumes "diffOnly opts" and "\<not> d_isNew doc" and "pre_save deepDiff opts w doc = Inr r"
  shows "\<exists>diff sdiff.
           diff_loop (diffAlgo_of deepDiff opts) (d_fields doc) (d_original doc)
             (map fst (d_fields doc)) [(''_id'', obj_get (d_fields doc) ''_id'')] = Inr diff
         \<and> (\<forall>k. map_of diff k =
               (if k \<in> fst ` set (d_fields doc)
                   \<and> truthy (diffAlgo_of deepDiff opts k (obj_get (d_fields doc) k)
                               (projr (get_prop (d_original doc) k)))
                then Some (resolved (diffAlgo_of deepDiff opts k (obj_get (d_fields doc) k)
                                       (projr (get_prop (d_original doc) k))))
                else if k = ''_id'' then Some (obj_get (d_fields doc) ''_id'')
                else None))
         \<and> (\<forall>k. customDiffAlgo opts = None \<and> k \<noteq> ''_id''
                  \<and> plain_value (obj_get (d_fields doc) k)
                  \<and> get_prop (d_original doc) k = Inr (obj_get (d_fields doc) k)
                \<longrightarrow> map_of diff k = None)
         \<and> sanitizeObj (JObj diff) = Inr (JObj sdiff)
         \<and> map_of (r_historyDoc r) ''diff'' = Some (HVal (JObj (obj_set sdiff ''__v'' JUndef)))"
proof -
  from update_record [OF assms] obtain diff sdiff where
    dl: "diff_loop (diffAlgo_of deepDiff opts) (d_fields doc) (d_original doc)
           (map fst (d_fields doc)) [(''_id'', obj_get (d_fields doc) ''_id'')] = Inr diff" and
    m: "\<And>k. map_of diff k =
          (if k \<in> fst ` set (d_fields doc)
              \<and> truthy (diffAlgo_of deepDiff opts k (obj_get (d_fields doc) k)
                          (projr (get_prop (d_original doc) k)))
           then Some (resolved (diffAlgo_of deepDiff opts k (obj_get (d_fields doc) k)
                                  (projr (get_prop (d_original doc) k))))
           else if k = ''_id'' then Some (obj_get (d_fields doc) ''_id'')
           else None)" and
    s: "sanitizeObj (JObj diff) = Inr (JObj sdiff)" and
    d: "map_of (r_historyDoc r) ''diff'' = Some (HVal (JObj (obj_set sdiff ''__v'' JUndef)))"
    by blast
  have "map_of diff k = None"
    if "customDiffAlgo opts = None" "k \<noteq> ''_id''" "plain_value (obj_get (d_fields doc) k)"
       "get_prop (d_original doc) k = Inr (obj_get (d_fields doc) k)" for k
    using that by (simp add: m diffAlgo_of_def defaultDiffAlgo_same)
  with dl m s d show ?thesis by blast
qed

lemma pre_save_retitled:
  "map_sum id (\<lambda>r. map_of (r_historyDoc r) ''diff'')
     (pre_save (\<lambda>a b c. JNull) diff_options quiet_world
        (loaded_post [(''_id'', JStr ''abc''), (''title'', JStr ''B''), (''message'', JStr ''M''),
                      (''updatedAt'', JDate 9)])) =
   Inr (Some (HVal (JObj [(''_id'', JStr ''abc''), (''title'', JStr ''B''), (''__v'', JUndef)])))"
  unfolding diff_options_def plain_options_def quiet_world_def loaded_post_def
  by code_simp

theorem update_diff_witness:
  "\<exists>r. pre_save (\<lambda>a b c. JNull) diff_options quiet_world
          (loaded_post [(''_id'', JStr ''abc''), (''title'', JStr ''B''), (''message'', JStr ''M''),
                        (''updatedAt'', JDate 9)]) = Inr r
      \<and> map_of (r_historyDoc r) ''diff'' =
          Some (HVal (JObj [(''_id'', JStr ''abc''), (''title'', JStr ''B''), (''__v'', JUndef)]))"
proof -
  let ?doc = "loaded_post [(''_id'', JStr ''abc''), (''title'', JStr ''B''), (''message'', JStr ''M''),
                           (''updatedAt'', JDate 9)]"
  have 1: "diffOnly diff_options" and 2: "\<not> d_isNew ?doc"
    by (simp_all add: diff_options_def loaded_post_def)
  obtain r where ok: "pre_save (\<lambda>a b c. JNull) diff_options quiet_world ?doc = Inr r"
    using pre_save_retitled
    by (cases "pre_save (\<lambda>a b c. JNull) diff_options quiet_world ?doc") auto
  have dl: "diff_loop (diffAlgo_of (\<lambda>a b c. JNull) diff_options) (d_fields ?doc) (d_original ?doc)
              (map fst (d_fields ?doc)) [(''_id'', obj_get (d_fields ?doc) ''_id'')]
            = Inr [(''_id'', JStr ''abc''), (''title'', JStr ''B'')]"
    unfolding diff_options_def plain_options_def loaded_post_def by code_simp
  have s: "sanitizeObj (JObj [(''_id'', JStr ''abc''), (''title'', JStr ''B'')])
            = Inr (JObj [(''_id'', JStr ''abc''), (''title'', JStr ''B'')])"
    by code_simp
  from update_diff [OF 1 2 ok] dl s ok show ?thesis
    by (auto simp: obj_set.simps key_before_v)
qed

text \<open>
  C2 (as stated) fails: a field whose values differ is not always in the diff. A post
  that gets \<open>votes: 0\<close> has the result \<open>0\<close> for that field, which is falsy, and the diff of
  its record holds \<open>_id\<close> only.
\<close>

theorem changed_field_left_out:
  "defaultDiffAlgo (\<lambda>a b c. JNull) ''votes'' (JNum 0) JUndef = JNum 0 \<and>
   map_sum id (\<lambda>r. map_of (r_historyDoc r) ''diff'')
     (pre_save (\<lambda>a b c. JNull) diff_options quiet_world
        (loaded_post [(''_id'', JStr ''abc''), (''title'', JStr ''A''), (''message'', JStr ''M''),
                      (''votes'', JNum 0)])) =
   Inr (Some (HVal (JObj [(''_id'', JStr ''abc''), (''__v'', JUndef)])))"
  unfolding diff_options_def plain_options_def quiet_world_def loaded_post_def
  by code_simp

text \<open>
  C7 (as amended). With the default algorithm, for every field other than \<open>updatedAt\<close> that
  is truthy in the original document and is a key of the new document with a falsy value,
  the diff of an update in diff-only mode maps that field to \<open>null\<close>, not to the string
  \<open>null\<close>, before it is sanitized for the record.
\<close>

theorem deleted_field_marker:
  assumes "diffOnly opts" and "\<not> d_isNew doc" and "customDiffAlgo opts = None"
    and "pre_save deepDiff opts w doc = Inr r"
    and "k \<in> fst ` set (d_fields doc)" and "k \<noteq> ''updatedAt''"
    and "get_prop (d_original doc) k = Inr ov" and "truthy ov"
    and "\<not> truthy (obj_get (d_fields doc) k)"
  shows "\<exists>diff sdiff.
           diff_loop (diffAlgo_of deepDiff opts) (d_fields doc) (d_original doc)
             (map fst (d_fields doc)) [(''_id'', obj_get (d_fields doc) ''_id'')] = Inr diff
         \<and> map_of diff k = Some JNull
         \<and> sanitizeObj (JObj diff) = Inr (JObj sdiff)
         \<and> map_of (r_historyDoc r) ''diff'' = Some (HVal (JObj (obj_set sdiff ''__v'' JUndef)))"
proof -
  from update_record [OF assms(1,2,4)] obtain diff sdiff where
    dl: "diff_loop (diffAlgo_of deepDiff opts) (d_fields doc) (d_original doc)
           (map fst (d_fields doc)) [(''_id'', obj_get (d_fields doc) ''_id'')] = Inr diff" and
    m: "\<And>k. map_of diff k =
          (if k \<in> fst ` set (d_fields doc)
              \<and> truthy (diffAlgo_of deepDiff opts k (obj_get (d_fields doc) k)
                          (projr (get_prop (d_original doc) k)))
           then Some (resolved (diffAlgo_of deepDiff opts k (obj_get (d_fields doc) k)
                                  (projr (get_prop (d_original doc) k))))
           else if k = ''_id'' then Some (obj_get (d_fields doc) ''_id'')
           else None)" and
    s: "sanitizeObj (JObj diff) = Inr (JObj sdiff)" and
    d: "map_of (r_historyDoc r) ''diff'' = Some (HVal (JObj (obj_set sdiff ''__v'' JUndef)))"
    by blast
  have "diffAlgo_of deepDiff opts k (obj_get (d_fields doc) k) (projr (get_prop (d_original doc) k))
          = JStr ''null''"
    using assms(3,6,7,8,9) by (simp add: diffAlgo_of_def defaultDiffAlgo_deleted)
  with assms(5) have "map_of diff k = Some JNull"
    by (simp add: m resolved_def)
  with dl s d show ?thesis by blast
qed

lemma pre_save_unset:
  "map_sum id (\<lambda>r. map_of (r_historyDoc r) ''diff'')
     (pre_save (\<lambda>a b c. JNull) diff_options quiet_world
        (loaded_post [(''_id'', JStr ''abc''), (''title'', JStr ''A''), (''message'', JNull)])) =
   Inr (Some (HVal (JObj [(''_id'', JStr ''abc''), (''message'', JNull), (''__v'', JUndef)])))"
  unfolding diff_options_def plain_options_def quiet_world_def loaded_post_def
  by code_simp

theorem deleted_field_marker_witness:
  "\<exists>r. pre_save (\<lambda>a b c. JNull) diff_options quiet_world
          (loaded_post [(''_id'', JStr ''abc''), (''title'', JStr ''A''), (''message'', JNull)]) = Inr r
      \<and> map_of (r_historyDoc r) ''diff'' =
          Some (HVal (JObj [(''_id'', JStr ''abc''), (''message'', JNull), (''__v'', JUndef)]))"
proof -
  let ?doc = "loaded_post [(''_id'', JStr ''abc''), (''title'', JStr ''A''), (''message'', JNull)]"
  have 1: "diffOnly diff_options" and 2: "\<not> d_isNew ?doc" and 3: "customDiffAlgo diff_options = None"
    and 5: "''message'' \<in> fst ` set (d_fields ?doc)" and 6: "''message'' \<noteq> ''updatedAt''"
    and 7: "get_prop (d_original ?doc) ''message'' = Inr (JStr ''M'')" and 8: "truthy (JStr ''M'')"
    and 9: "\<not> truthy (obj_get (d_fields ?doc) ''message'')"
    by (simp_all add: diff_options_def plain_options_def loaded_post_def object_prototype_names_def)
  obtain r where ok: "pre_save (\<lambda>a b c. JNull) diff_options quiet_world ?doc = Inr r"
    using pre_save_unset
    by (cases "pre_save (\<lambda>a b c. JNull) diff_options quiet_world ?doc") auto
  have dl: "diff_loop (diffAlgo_of (\<lambda>a b c. JNull) diff_options) (d_fields ?doc) (d_original ?doc)
              (map fst (d_fields ?doc)) [(''_id'', obj_get (d_fields ?doc) ''_id'')]
            = Inr [(''_id'', JStr ''abc''), (''message'', JNull)]"
    unfolding diff_options_def plain_options_def loaded_post_def by code_simp
  have s: "sanitizeObj (JObj [(''_id'', JStr ''abc''), (''message'', JNull)])
            = Inr (JObj [(''_id'', JStr ''abc''), (''message'', JNull)])"
    by code_simp
  from deleted_field_marker [OF 1 2 3 ok 5 6 7 8 9] dl s ok show ?thesis
    by (auto simp: obj_set.simps key_before_v)
qed

text \<open>
  C7 (as stated) fails: a post whose \<open>message\<close> is no longer a key of the new document, and
  whose \<open>updatedAt\<close> became \<open>null\<close>, has a record whose diff holds neither field.
\<close>

theorem removed_field_has_no_marker:
  "map_sum id (\<lambda>r. map_of (r_historyDoc r) ''diff'')
     (pre_save (\<lambda>a b c. JNull) diff_options quiet_world
        (loaded_post [(''_id'', JStr ''abc''), (''title'', JStr ''A''), (''updatedAt'', JNull)])) =
   Inr (Some (HVal (JObj [(''_id'', JStr ''abc''), (''__v'', JUndef)])))"
  unfolding diff_options_def plain_options_def quiet_world_def loaded_post_def
  by code_simp


subsection \<open>Metadata\<close>

text \<open>
  C3, at an input where the code departs from it. With the pair \<open>{key: 'title', value:
  'title'}\<close> the history model declares a field \<open>title\<close> of the history document itself, and
  the document that is saved for a new post has no such field: the title is written into
  its \<open>doc\<close>.
\<close>

theorem metadata_goes_into_doc:
  "map_of (schemaObject titled_options) ''title'' = Some ''Mixed'' \<and>
   map_sum id r_events (pre_save (\<lambda>a b c. JNull) titled_options quiet_world new_post) =
   Inr [Persist ''posts_history''
          [(''doc'', HVal (JObj [(''__v'', JUndef), (''title'', JStr ''A'')])),
           (''diff'', HVal (JObj [(''_id'', JStr ''abc''), (''title'', JStr ''A''),
                                  (''message'', JStr ''M''), (''__v'', JUndef)])),
           (''op'', HVal (JStr ''i'')), (''date'', HVal (JDate 0)),
           (''docId'', HVal (JStr ''abc''))]]"
  unfolding titled_options_def plain_options_def quiet_world_def new_post_def
  by code_simp

text \<open>
  C4, at an input where the code departs from it. A function of three arguments that
  reports an error together with data: \<open>next\<close> gets the error and nothing is saved, but the
  data is written to the \<open>doc\<close> of the history document all the same, and the second call
  of the item's callback throws.
\<close>

theorem extractor_error_still_records:
  "map_sum id (\<lambda>r. (r_events r, map_of (r_historyDoc r) ''doc''))
     (pre_save (\<lambda>a b c. JNull) failing_options quiet_world new_post) =
   Inr ([NextError (JStr ''failed''), Thrown CallbackAlreadyCalled],
        Some (HVal (JObj [(''__v'', JUndef), (''checked'', JStr ''partial'')])))"
  unfolding failing_options_def plain_options_def quiet_world_def new_post_def
  by code_simp

subsection \<open>The actor\<close>

text \<open>
  C5, at an input where the code departs from it. With a blacklist and no actor, neither
  in the context nor kept from an earlier \<open>findOne\<close>, building the record of a new post
  throws a \<open>TypeError\<close>. Without a blacklist the record is built, with \<open>modifiedBy\<close> set to
  \<open>null\<close>.
\<close>

theorem blacklist_without_actor_throws:
  "map_sum id r_events
     (pre_save (\<lambda>a b c. JNull) (user_options (Some [''password''])) quiet_world new_post) =
   Inl TypeError \<and>
   map_sum id (\<lambda>r. map_of (r_historyDoc r) ''modifiedBy'')
     (pre_save (\<lambda>a b c. JNull) (user_options None) quiet_world new_post) =
   Inr (Some (HActor (Val JNull)))"
  unfolding user_options_def plain_options_def quiet_world_def new_post_def
  by code_simp

lemma blacklist_loop_Ref:
  "blacklist_loop (Ref a) bl h = Inr h' \<Longrightarrow>
   h' = h(a := foldl (\<lambda>ob k. obj_set ob k JUndef) (h a) bl)"
proof (induction bl arbitrary: h)
  case Nil
  then show ?case by simp
next
  case (Cons key bl)
  from Cons.prems have
    "blacklist_loop (Ref a) bl (h(a := obj_set (h a) key JUndef)) = Inr h'"
    by (auto split: if_splits)
  from Cons.IH [OF this] show ?case by (simp add: fun_eq_iff)
qed

text \<open>
  C6 (as amended). When actor tracking is configured and the actor is an object, the
  record holds that object itself, not a copy, and the blacklist sets each of its keys to
  \<open>undefined\<close> on that object, in the store that every holder of the actor reads.
\<close>

theorem blacklist_writes_to_actor:
  assumes "createHistoryDoc opts w doc diff operation collectionName additionalFields = Inr (h, w')"
    and "modifiedBy opts = Some mb"
    and "(if actor_truthy (w_ambient w (contextPath mb)) then w_ambient w (contextPath mb)
          else w_currentUser w) = Ref a"
  shows "map_of h ''modifiedBy'' = Some (HActor (Ref a)) \<and>
         w_heap w' = (w_heap w)
           (a := foldl (\<lambda>ob k. obj_set ob k JUndef) (w_heap w a)
                   (case blacklist mb of None \<Rightarrow> [] | Some bl \<Rightarrow> bl))"
proof -
  from assms(1) obtain h2 h3 where
    am: "addModifiedByInfo opts w h2 = Inr (h3, w')" and
    hh: "h = (case additionalFields of
                None \<Rightarrow> h3
              | Some af \<Rightarrow> obj_set h3 ''additionalFields'' (HVal (JObj (own_copy af))))"
    unfolding createHistoryDoc_def Let_def
    by (auto split: sum.splits)
  let ?bl = "case blacklist mb of None \<Rightarrow> [] | Some bl \<Rightarrow> bl"
  have m: "(if \<not> actor_truthy (w_ambient w (contextPath mb)) then w_currentUser w
            else w_ambient w (contextPath mb)) = Ref a"
    using assms(3) by (simp split: if_splits)
  have h3: "h3 = obj_set h2 ''modifiedBy'' (HActor (Ref a))"
    and w': "w' = w\<lparr>w_heap := (w_heap w)(a := foldl (\<lambda>ob k. obj_set ob k JUndef) (w_heap w a) ?bl)\<rparr>"
    using am assms(2) m unfolding addModifiedByInfo_def Let_def
    by (auto dest!: blacklist_loop_Ref split: option.splits if_splits sum.splits)
  have "map_of h ''modifiedBy'' = Some (HActor (Ref a))"
    unfolding hh h3 by (simp add: map_of_obj_set split: option.splits)
  with w' show ?thesis by simp
qed


lemma createHistoryDoc_user:
  "map_sum id (\<lambda>(h, w'). map_of h ''op'')
     (createHistoryDoc (user_options (Some [''password''])) user_world JUndef
        (JObj (d_fields new_post)) ''i'' ''posts'' None) = Inr (Some (HVal (JStr ''i'')))"
  unfolding user_options_def plain_options_def user_world_def new_post_def
  by code_simp

theorem blacklist_writes_to_actor_witness:
  "\<exists>h w'. createHistoryDoc (user_options (Some [''password''])) user_world JUndef
             (JObj (d_fields new_post)) ''i'' ''posts'' None = Inr (h, w')
         \<and> map_of h ''modifiedBy'' = Some (HActor (Ref 0))
         \<and> w_heap w' 0 = [(''name'', JStr ''ann''), (''password'', JUndef)]"
proof -
  let ?mb = "\<lparr>schemaType = ''Mixed'', contextPath = ''request:userInfo'',
              blacklist = Some [''password'']\<rparr>"
  obtain h w' where ok: "createHistoryDoc (user_options (Some [''password''])) user_world JUndef
                           (JObj (d_fields new_post)) ''i'' ''posts'' None = Inr (h, w')"
    using createHistoryDoc_user
    by (cases "createHistoryDoc (user_options (Some [''password''])) user_world JUndef
                 (JObj (d_fields new_post)) ''i'' ''posts'' None") auto
  have mb: "modifiedBy (user_options (Some [''password''])) = Some ?mb"
    by (simp add: user_options_def plain_options_def)
  have act: "(if actor_truthy (w_ambient user_world (contextPath ?mb))
              then w_ambient user_world (contextPath ?mb) else w_currentUser user_world) = Ref 0"
    by (simp add: user_world_def)
  have v: "obj_set [(''name'', JStr ''ann''), (''password'', JStr ''secret'')] ''password'' JUndef
             = [(''name'', JStr ''ann''), (''password'', JUndef)]"
    by code_simp
  from blacklist_writes_to_actor [OF ok mb act] ok v show ?thesis
    by (auto simp: user_world_def)
qed

text \<open>
  C6 (as stated) fails: building the record of a new post, with \<open>password\<close> on the
  blacklist, changes the user object that the request context holds.
\<close>

theorem blacklist_changes_live_actor:
  "w_heap user_world 0 = [(''name'', JStr ''ann''), (''password'', JStr ''secret'')] \<and>
   map_sum id (\<lambda>r. (map_of (r_historyDoc r) ''modifiedBy'', w_heap (r_world r) 0))
     (pre_save (\<lambda>a b c. JNull) (user_options (Some [''password''])) user_world new_post) =
   Inr (Some (HActor (Ref 0)), [(''name'', JStr ''ann''), (''password'', JUndef)])"
  unfolding user_options_def plain_options_def user_world_def new_post_def
  by code_simp

subsection \<open>The document id\<close>

text \<open>
  The \<open>docId\<close> computed from the sanitized \<open>doc\<close> and \<open>diff\<close>, each with its \<open>__v\<close> unset:
  the first truthy \<open>_id\<close> of the two decides.
\<close>

lemma docId_of_objects:
  "docId_of (JObj (obj_set d ''__v'' JUndef)) (JObj (obj_set f ''__v'' JUndef)) =
     (let id = (if truthy (obj_get d ''_id'') then obj_get d ''_id'' else obj_get f ''_id'')
      in if truthy id then
           (case js_toString id of
              Inl e \<Rightarrow> Inl e
            | Inr s \<Rightarrow>
                if s = ''[object Object]''
                then (case stringify id of
                        Inl e \<Rightarrow> Inl e
                      | Inr None \<Rightarrow> Inr (Some JUndef)
                      | Inr (Some t) \<Rightarrow> Inr (Some (JStr t)))
                else Inr (Some (JStr s)))
         else Inr None)"
  unfolding docId_of_def Let_def
  by (simp add: obj_get_obj_set object_prototype_names_def)

lemma addModifiedByInfo_any:
  assumes "addModifiedByInfo opts w [] = Inr (hm, wm)"
  shows "\<exists>h'. addModifiedByInfo opts w h = Inr (h', wm)"
  using assms unfolding addModifiedByInfo_def Let_def
  by (auto split: option.splits sum.splits if_splits)

lemma createHistoryDoc_docId:
  assumes s1: "sanitizeObj (if truthy doc then doc else JObj []) = Inr (JObj d)"
    and s2: "sanitizeObj (if truthy diff then diff else JObj []) = Inr (JObj f)"
    and am: "addModifiedByInfo opts w [] = Inr (hm, wm)"
    and di: "docId_of (JObj (obj_set d ''__v'' JUndef)) (JObj (obj_set f ''__v'' JUndef)) = Inr r"
  shows "\<exists>h. createHistoryDoc opts w doc diff operation collectionName additionalFields = Inr (h, wm)
             \<and> map_of h ''docId'' = map_option HVal r"
proof -
  define h1 where "h1 =
      (let h0 = [(''doc'', HVal (JObj (obj_set d ''__v'' JUndef))),
                 (''diff'', HVal (JObj (obj_set f ''__v'' JUndef))),
                 (''op'', HVal (JStr operation)), (''date'', HVal (JDate (w_now w)))]
       in if includeCollectionName opts then obj_set h0 ''col'' (HVal (JStr collectionName)) else h0)"
  define h2 where "h2 = (case r of None \<Rightarrow> h1 | Some s \<Rightarrow> obj_set h1 ''docId'' (HVal s))"
  from addModifiedByInfo_any [OF am] obtain h3 where
    a: "addModifiedByInfo opts w h2 = Inr (h3, wm)"
    by blast
  have ok: "createHistoryDoc opts w doc diff operation collectionName additionalFields =
          Inr (case additionalFields of
                 None \<Rightarrow> h3
               | Some af \<Rightarrow> obj_set h3 ''additionalFields'' (HVal (JObj (own_copy af))), wm)"
    using a unfolding createHistoryDoc_def h2_def h1_def Let_def
    by (simp add: s1 s2 di)
  from createHistoryDoc_Inr [OF ok] s1 s2 di
  have "map_of (case additionalFields of
                  None \<Rightarrow> h3
                | Some af \<Rightarrow> obj_set h3 ''additionalFields'' (HVal (JObj (own_copy af)))) ''docId''
          = base_fields opts w d f operation collectionName r ''docId''"
    by auto
  then have "map_of (case additionalFields of
                       None \<Rightarrow> h3
                     | Some af \<Rightarrow> obj_set h3 ''additionalFields'' (HVal (JObj (own_copy af)))) ''docId''
               = map_option HVal r"
    by (simp add: base_fields_def)
  with ok show ?thesis by blast
qed

lemma createHistoryDoc_docId_error:
  assumes s1: "sanitizeObj (if truthy doc then doc else JObj []) = Inr (JObj d)"
    and s2: "sanitizeObj (if truthy diff then diff else JObj []) = Inr (JObj f)"
    and di: "docId_of (JObj (obj_set d ''__v'' JUndef)) (JObj (obj_set f ''__v'' JUndef)) = Inl e"
  shows "createHistoryDoc opts w doc diff operation collectionName additionalFields = Inl e"
  unfolding createHistoryDoc_def Let_def
  by (simp add: s1 s2 di)


lemma digit_char_digit: "n < 10 \<Longrightarrow> digit_char n \<in> set ''0123456789''"
proof -
  assume "n < 10"
  then have "n \<in> {0, 1, 2, 3, 4, 5, 6, 7, 8, 9}"
    by auto
  then show ?thesis
    unfolding digit_char_def by auto
qed

lemma show_nat_last: "show_nat n \<noteq> [] \<and> last (show_nat n) \<in> set ''0123456789''"
proof (cases "n < 10")
  case True
  have "show_nat n = (if n < 10 then [digit_char n] else show_nat (n div 10) @ [digit_char (n mod 10)])"
    by (rule show_nat.simps)
  with True have "show_nat n = [digit_char n]"
    by (simp del: show_nat.simps)
  with digit_char_digit [OF True] show ?thesis
    by (simp del: show_nat.simps)
next
  case False
  have "show_nat n = (if n < 10 then [digit_char n] else show_nat (n div 10) @ [digit_char (n mod 10)])"
    by (rule show_nat.simps)
  with False have "show_nat n = show_nat (n div 10) @ [digit_char (n mod 10)]"
    by (simp del: show_nat.simps)
  moreover have "digit_char (n mod 10) \<in> set ''0123456789''"
    by (rule digit_char_digit) simp
  ultimately show ?thesis
    by (simp del: show_nat.simps)
qed

lemma Number_toString_digits:
  assumes "Number_toString n = Inr s"
  shows "s \<noteq> ''[object Object]''"
proof
  assume "s = ''[object Object]''"
  then have l: "last s = CHR '']''"
    by simp
  from assms have "s = CHR ''-'' # show_nat (nat (- n)) \<or> s = show_nat (nat n)"
    unfolding Number_toString_def by (simp del: show_nat.simps split: if_splits)
  then have "last s \<in> set ''0123456789''"
    using show_nat_last [of "nat (- n)"] show_nat_last [of "nat n"]
    by (auto simp del: show_nat.simps)
  with l show False by simp
qed

text \<open>
  C9. The \<open>docId\<close> of a history document comes from the \<open>_id\<close> of the sanitized \<open>doc\<close> when
  that is truthy, else from the \<open>_id\<close> of the sanitized \<open>diff\<close>. Given that the two
  arguments can be sanitized and that the actor step succeeds, the history document is
  built, and: there is no \<open>docId\<close> when neither \<open>_id\<close> is truthy; a string id such as
  \<open>abc\<close> is its own \<open>docId\<close>, a number id is its decimal text and \<open>true\<close> is the text
  \<open>true\<close>; an id that is a plain object, whose \<open>toString()\<close> is the text of a generic
  object, is written as its JSON text. In general the \<open>docId\<close> is the id's \<open>toString()\<close>,
  or the id's JSON text when \<open>toString()\<close> gives the text of a generic object. An id that
  is an object with a property \<open>toString\<close> of its own makes the call throw a \<open>TypeError\<close>,
  as any id whose \<open>toString()\<close> throws makes the call throw.
\<close>

theorem documentId_resolution:
  assumes s1: "sanitizeObj (if truthy doc then doc else JObj []) = Inr (JObj d)"
    and s2: "sanitizeObj (if truthy diff then diff else JObj []) = Inr (JObj f)"
    and am: "addModifiedByInfo opts w [] = Inr (hm, wm)"
  shows "let id = (if truthy (obj_get d ''_id'') then obj_get d ''_id'' else obj_get f ''_id'');
             res = createHistoryDoc opts w doc diff operation collectionName additionalFields
         in (\<not> truthy id \<longrightarrow> (\<exists>h. res = Inr (h, wm) \<and> map_of h ''docId'' = None))
          \<and> (\<forall>s. id = JStr s \<and> s \<noteq> [] \<and> s \<noteq> ''[object Object]'' \<longrightarrow>
                 (\<exists>h. res = Inr (h, wm) \<and> map_of h ''docId'' = Some (HVal (JStr s))))
          \<and> (\<forall>n s. id = JNum n \<and> n \<noteq> 0 \<and> Number_toString n = Inr s \<longrightarrow>
                 (\<exists>h. res = Inr (h, wm) \<and> map_of h ''docId'' = Some (HVal (JStr s))))
          \<and> (id = JBool True \<longrightarrow>
                 (\<exists>h. res = Inr (h, wm) \<and> map_of h ''docId'' = Some (HVal (JStr ''true''))))
          \<and> (\<forall>kvs t. id = JObj kvs \<and> ''toString'' \<notin> fst ` set kvs \<and> stringify id = Inr (Some t) \<longrightarrow>
                 (\<exists>h. res = Inr (h, wm) \<and> map_of h ''docId'' = Some (HVal (JStr t))))
          \<and> (\<forall>kvs. id = JObj kvs \<and> ''toString'' \<in> fst ` set kvs \<longrightarrow> res = Inl TypeError)
          \<and> (\<forall>s. truthy id \<and> js_toString id = Inr s \<and> s \<noteq> ''[object Object]'' \<longrightarrow>
                 (\<exists>h. res = Inr (h, wm) \<and> map_of h ''docId'' = Some (HVal (JStr s))))
          \<and> (\<forall>t. truthy id \<and> js_toString id = Inr ''[object Object]'' \<and> stringify id = Inr (Some t) \<longrightarrow>
                 (\<exists>h. res = Inr (h, wm) \<and> map_of h ''docId'' = Some (HVal (JStr t))))
          \<and> (\<forall>e. truthy id \<and> js_toString id = Inl e \<longrightarrow> res = Inl e)"
proof -
  define docId where
    "docId = (if truthy (obj_get d ''_id'') then obj_get d ''_id'' else obj_get f ''_id'')"
  define res where
    "res = createHistoryDoc opts w doc diff operation collectionName additionalFields"
  define found where "found v = (\<exists>h. res = Inr (h, wm) \<and> map_of h ''docId'' = v)" for v
  note D = docId_of_objects [of d f, unfolded Let_def, folded docId_def]
  have K: "found (map_option HVal r)"
    if "docId_of (JObj (obj_set d ''__v'' JUndef)) (JObj (obj_set f ''__v'' JUndef)) = Inr r" for r
    unfolding found_def res_def using createHistoryDoc_docId [OF s1 s2 am that] .
  have E: "res = Inl e"
    if "docId_of (JObj (obj_set d ''__v'' JUndef)) (JObj (obj_set f ''__v'' JUndef)) = Inl e" for e
    unfolding res_def using createHistoryDoc_docId_error [OF s1 s2 that] .
  have g1: "found None" if "\<not> truthy docId"
    using K [of None] that by (simp add: D)
  have g2: "found (Some (HVal (JStr s)))"
    if "truthy docId" "js_toString docId = Inr s" "s \<noteq> ''[object Object]''" for s
    using K [of "Some (JStr s)"] that by (simp add: D)
  have g3: "found (Some (HVal (JStr t)))"
    if "truthy docId" "js_toString docId = Inr ''[object Object]''" "stringify docId = Inr (Some t)" for t
    using K [of "Some (JStr t)"] that by (simp add: D)
  have g4: "res = Inl e" if "truthy docId" "js_toString docId = Inl e" for e
    using E [of e] that by (simp add: D)
  have c1: "\<not> truthy docId \<longrightarrow> found None"
    using g1 by blast
  have c2: "\<forall>s. docId = JStr s \<and> s \<noteq> [] \<and> s \<noteq> ''[object Object]'' \<longrightarrow> found (Some (HVal (JStr s)))"
    using g2 by simp
  have c3: "\<forall>n s. docId = JNum n \<and> n \<noteq> 0 \<and> Number_toString n = Inr s \<longrightarrow> found (Some (HVal (JStr s)))"
  proof (intro allI impI)
    fix n s
    assume a: "docId = JNum n \<and> n \<noteq> 0 \<and> Number_toString n = Inr s"
    then have "s \<noteq> ''[object Object]''"
      using Number_toString_digits [of n s] by blast
    with g2 [of s] a show "found (Some (HVal (JStr s)))" by simp
  qed
  have c4: "docId = JBool True \<longrightarrow> found (Some (HVal (JStr ''true'')))"
    using g2 [of "''true''"] by simp
  have c5: "\<forall>kvs t. docId = JObj kvs \<and> ''toString'' \<notin> fst ` set kvs \<and> stringify docId = Inr (Some t) \<longrightarrow>
              found (Some (HVal (JStr t)))"
  proof (intro allI impI)
    fix kvs t
    assume a: "docId = JObj kvs \<and> ''toString'' \<notin> fst ` set kvs \<and> stringify docId = Inr (Some t)"
    then have "truthy docId" and "js_toString docId = Inr ''[object Object]''"
      by auto
    with g3 [of t] a show "found (Some (HVal (JStr t)))" by blast
  qed
  have c6: "\<forall>kvs. docId = JObj kvs \<and> ''toString'' \<in> fst ` set kvs \<longrightarrow> res = Inl TypeError"
  proof (intro allI impI)
    fix kvs
    assume a: "docId = JObj kvs \<and> ''toString'' \<in> fst ` set kvs"
    then have "truthy docId" and "js_toString docId = Inl TypeError"
      by auto
    with g4 [of TypeError] show "res = Inl TypeError" by blast
  qed
  have c7: "\<forall>s. truthy docId \<and> js_toString docId = Inr s \<and> s \<noteq> ''[object Object]'' \<longrightarrow>
              found (Some (HVal (JStr s)))"
    using g2 by blast
  have c8: "\<forall>t. truthy docId \<and> js_toString docId = Inr ''[object Object]'' \<and> stringify docId = Inr (Some t) \<longrightarrow>
              found (Some (HVal (JStr t)))"
    using g3 by blast
  have c9: "\<forall>e. truthy docId \<and> js_toString docId = Inl e \<longrightarrow> res = Inl e"
    using g4 by blast
  show ?thesis
    unfolding Let_def docId_def [symmetric] res_def [symmetric]
    using c1 c2 c3 c4 c5 c6 c7 c8 c9 unfolding found_def
    by (intro conjI)
qed

text \<open>
  The three cases of the specification, a composite id, ids that are a number, an array,
  an array of an object, an object with a property \<open>toString\<close>, and an object whose keys
  change their order when the sanitizer reads them back.
\<close>

lemma createHistoryDoc_ids:
  "map_sum id (\<lambda>(h, w'). map_of h ''docId'')
     (createHistoryDoc plain_options quiet_world (JObj [(''_id'', JStr ''abc'')]) JUndef ''r'' ''posts'' None)
     = Inr (Some (HVal (JStr ''abc'')))"
  "map_sum id (\<lambda>(h, w'). map_of h ''docId'')
     (createHistoryDoc plain_options quiet_world JUndef (JObj [(''_id'', JStr ''abc'')]) ''i'' ''posts'' None)
     = Inr (Some (HVal (JStr ''abc'')))"
  "map_sum id (\<lambda>(h, w'). map_of h ''docId'')
     (createHistoryDoc plain_options quiet_world JUndef (JObj [(''title'', JStr ''A'')]) ''i'' ''posts'' None)
     = Inr None"
  "map_sum id (\<lambda>(h, w'). map_of h ''docId'')
     (createHistoryDoc plain_options quiet_world
        (JObj [(''_id'', JObj [(''$in'', JArr [JStr ''5b118cdc'']) ])]) JUndef ''u'' ''posts'' (Some []))
     = Inr (Some (HVal (JStr (''{'' @ [dquote] @ ''in'' @ [dquote] @ '':['' @ [dquote] @ ''5b118cdc''
                               @ [dquote] @ '']}''))))"
  "map_sum id (\<lambda>(h, w'). map_of h ''docId'')
     (createHistoryDoc plain_options quiet_world (JObj [(''_id'', JNum 42)]) JUndef ''r'' ''posts'' None)
     = Inr (Some (HVal (JStr ''42'')))"
  "map_sum id (\<lambda>(h, w'). map_of h ''docId'')
     (createHistoryDoc plain_options quiet_world (JObj [(''_id'', JArr [JNum 1, JNull, JStr ''b''])]) JUndef
        ''r'' ''posts'' None)
     = Inr (Some (HVal (JStr ''1,,b'')))"
  "map_sum id (\<lambda>(h, w'). map_of h ''docId'')
     (createHistoryDoc plain_options quiet_world (JObj [(''_id'', JArr [JObj []])]) JUndef
        ''r'' ''posts'' None)
     = Inr (Some (HVal (JStr ''[{}]'')))"
  "map_sum id (\<lambda>(h, w'). map_of h ''docId'')
     (createHistoryDoc plain_options quiet_world
        (JObj [(''_id'', JObj [(''toString'', JStr ''x''), (''n'', JNum (- 7))])]) JUndef ''u'' ''posts'' None)
     = Inl TypeError"
  "map_sum id (\<lambda>(h, w'). map_of h ''docId'')
     (createHistoryDoc plain_options quiet_world
        (JObj [(''_id'', JObj [(''a'', JNum 1), (''$1'', JNum 2)])]) JUndef ''u'' ''posts'' None)
     = Inr (Some (HVal (JStr (''{'' @ [dquote] @ ''1'' @ [dquote] @ '':2,'' @ [dquote] @ ''a''
                               @ [dquote] @ '':1}''))))"
  unfolding plain_options_def quiet_world_def
  by code_simp+

theorem documentId_resolution_witness:
  "(\<exists>h. createHistoryDoc plain_options quiet_world (JObj [(''_id'', JStr ''abc'')]) JUndef ''r''
           ''posts'' None = Inr (h, quiet_world)
        \<and> map_of h ''docId'' = Some (HVal (JStr ''abc'')))
   \<and> (\<exists>h. createHistoryDoc plain_options quiet_world JUndef (JObj [(''_id'', JStr ''abc'')]) ''i''
           ''posts'' None = Inr (h, quiet_world)
        \<and> map_of h ''docId'' = Some (HVal (JStr ''abc'')))
   \<and> (\<exists>h. createHistoryDoc plain_options quiet_world JUndef (JObj [(''title'', JStr ''A'')]) ''i''
           ''posts'' None = Inr (h, quiet_world)
        \<and> map_of h ''docId'' = None)
   \<and> (\<exists>h. createHistoryDoc plain_options quiet_world
           (JObj [(''_id'', JObj [(''$in'', JArr [JStr ''5b118cdc''])])]) JUndef ''u''
           ''posts'' None = Inr (h, quiet_world)
        \<and> map_of h ''docId'' =
            Some (HVal (JStr (''{'' @ [dquote] @ ''in'' @ [dquote] @ '':['' @ [dquote] @ ''5b118cdc''
                              @ [dquote] @ '']}''))))
   \<and> (\<exists>h. createHistoryDoc plain_options quiet_world (JObj [(''_id'', JNum 42)]) JUndef ''r''
           ''posts'' None = Inr (h, quiet_world)
        \<and> map_of h ''docId'' = Some (HVal (JStr ''42'')))
   \<and> (\<exists>h. createHistoryDoc plain_options quiet_world (JObj [(''_id'', JBool True)]) JUndef ''r''
           ''posts'' None = Inr (h, quiet_world)
        \<and> map_of h ''docId'' = Some (HVal (JStr ''true'')))
   \<and> createHistoryDoc plain_options quiet_world
        (JObj [(''_id'', JObj [(''toString'', JStr ''x'')])]) JUndef ''u'' ''posts'' None = Inl TypeError"
proof -
  have am: "addModifiedByInfo plain_options quiet_world [] = Inr ([], quiet_world)"
    by (simp add: addModifiedByInfo_def plain_options_def)
  have e: "sanitizeObj (if truthy JUndef then JUndef else JObj []) = Inr (JObj [])"
    by code_simp
  have s1: "sanitizeObj (if truthy (JObj [(''_id'', JStr ''abc'')]) then JObj [(''_id'', JStr ''abc'')]
                         else JObj []) = Inr (JObj [(''_id'', JStr ''abc'')])"
    by code_simp
  have s3: "sanitizeObj (if truthy (JObj [(''title'', JStr ''A'')]) then JObj [(''title'', JStr ''A'')]
                         else JObj []) = Inr (JObj [(''title'', JStr ''A'')])"
    by code_simp
  have s4: "sanitizeObj (if truthy (JObj [(''_id'', JObj [(''$in'', JArr [JStr ''5b118cdc''])])])
                         then JObj [(''_id'', JObj [(''$in'', JArr [JStr ''5b118cdc''])])]
                         else JObj []) = Inr (JObj [(''_id'', JObj [(''in'', JArr [JStr ''5b118cdc''])])])"
    by code_simp
  have t4: "stringify (JObj [(''in'', JArr [JStr ''5b118cdc''])]) =
              Inr (Some (''{'' @ [dquote] @ ''in'' @ [dquote] @ '':['' @ [dquote] @ ''5b118cdc''
                         @ [dquote] @ '']}''))"
    by code_simp
  have s5: "sanitizeObj (if truthy (JObj [(''_id'', JNum 42)]) then JObj [(''_id'', JNum 42)]
                         else JObj []) = Inr (JObj [(''_id'', JNum 42)])"
    by code_simp
  have t5: "Number_toString 42 = Inr ''42''"
    by code_simp
  have s6: "sanitizeObj (if truthy (JObj [(''_id'', JBool True)]) then JObj [(''_id'', JBool True)]
                         else JObj []) = Inr (JObj [(''_id'', JBool True)])"
    by code_simp
  have s7: "sanitizeObj (if truthy (JObj [(''_id'', JObj [(''toString'', JStr ''x'')])])
                         then JObj [(''_id'', JObj [(''toString'', JStr ''x'')])]
                         else JObj []) = Inr (JObj [(''_id'', JObj [(''toString'', JStr ''x'')])])"
    by code_simp
  have 1: "\<exists>h. createHistoryDoc plain_options quiet_world (JObj [(''_id'', JStr ''abc'')]) JUndef ''r''
                ''posts'' None = Inr (h, quiet_world)
              \<and> map_of h ''docId'' = Some (HVal (JStr ''abc''))"
    using documentId_resolution [OF s1 e am, of "''r''" "''posts''" None]
    by (simp add: Let_def)
  have 2: "\<exists>h. createHistoryDoc plain_options quiet_world JUndef (JObj [(''_id'', JStr ''abc'')]) ''i''
                ''posts'' None = Inr (h, quiet_world)
              \<and> map_of h ''docId'' = Some (HVal (JStr ''abc''))"
    using documentId_resolution [OF e s1 am, of "''i''" "''posts''" None]
    by (simp add: Let_def)
  have 3: "\<exists>h. createHistoryDoc plain_options quiet_world JUndef (JObj [(''title'', JStr ''A'')]) ''i''
                ''posts'' None = Inr (h, quiet_world)
              \<and> map_of h ''docId'' = None"
    using documentId_resolution [OF e s3 am, of "''i''" "''posts''" None]
    by (simp add: Let_def)
  have 4: "\<exists>h. createHistoryDoc plain_options quiet_world
                (JObj [(''_id'', JObj [(''$in'', JArr [JStr ''5b118cdc''])])]) JUndef ''u''
                ''posts'' None = Inr (h, quiet_world)
              \<and> map_of h ''docId'' =
                  Some (HVal (JStr (''{'' @ [dquote] @ ''in'' @ [dquote] @ '':['' @ [dquote] @ ''5b118cdc''
                                    @ [dquote] @ '']}'')))"
    using documentId_resolution [OF s4 e am, of "''u''" "''posts''" None]
    by (simp add: Let_def t4 del: stringify.simps)
  have 5: "\<exists>h. createHistoryDoc plain_options quiet_world (JObj [(''_id'', JNum 42)]) JUndef ''r''
                ''posts'' None = Inr (h, quiet_world)
              \<and> map_of h ''docId'' = Some (HVal (JStr ''42''))"
    using documentId_resolution [OF s5 e am, of "''r''" "''posts''" None]
    by (simp add: Let_def t5)
  have 6: "\<exists>h. createHistoryDoc plain_options quiet_world (JObj [(''_id'', JBool True)]) JUndef ''r''
                ''posts'' None = Inr (h, quiet_world)
              \<and> map_of h ''docId'' = Some (HVal (JStr ''true''))"
    using documentId_resolution [OF s6 e am, of "''r''" "''posts''" None]
    by (simp add: Let_def)
  have 7: "createHistoryDoc plain_options quiet_world
             (JObj [(''_id'', JObj [(''toString'', JStr ''x'')])]) JUndef ''u'' ''posts'' None = Inl TypeError"
    using documentId_resolution [OF s7 e am, of "''u''" "''posts''" None]
    by (simp add: Let_def)
  from 1 2 3 4 5 6 7 show ?thesis
    by (intro conjI)
qed

subsection \<open>The sanitizer\<close>

text \<open>
  C8, at inputs where the code departs from it. The sanitizer removes the first \<open>$\<close> that
  follows a double quote in the JSON text, whether that quote opens a key or a string
  value, and only the first. The object \<open>{title: '$$'}\<close> has no key that starts with \<open>$\<close>:
  sanitized once its title is \<open>$\<close>, sanitized twice its title is empty. Of the two keys of
  \<open>{$or: [], $and: []}\<close> the first pass renames one, and the second pass the other.
\<close>

theorem sanitize_twice_differs:
  "sanitizeObj (JObj [(''title'', JStr ''$$'')]) = Inr (JObj [(''title'', JStr ''$'')])
   \<and> sanitizeObj (JObj [(''title'', JStr ''$'')]) = Inr (JObj [(''title'', JStr '''')])
   \<and> sanitizeObj (JObj [(''$or'', JArr []), (''$and'', JArr [])])
       = Inr (JObj [(''or'', JArr []), (''$and'', JArr [])])
   \<and> sanitizeObj (JObj [(''or'', JArr []), (''$and'', JArr [])])
       = Inr (JObj [(''or'', JArr []), (''and'', JArr [])])"
  by code_simp

subsection \<open>The cache of history models\<close>

text \<open>
  A second call with the same name changes nothing and returns what the first call
  returned, whatever the options. For a name that is neither cached nor inherited, the
  first call registers one model and caches it.
\<close>

lemma HistoryModel_twice:
  "HistoryModel name opts' (snd (HistoryModel name opts mc)) =
     (fst (HistoryModel name opts mc), snd (HistoryModel name opts mc))"
  unfolding HistoryModel_def Let_def
  by (auto simp: keys_obj_set map_of_obj_set)

lemma HistoryModel_first:
  assumes "name \<notin> fst ` set (historyModels mc)" and "name \<notin> set object_prototype_names"
  shows "HistoryModel name opts mc =
           (let h = \<lparr>sh_id = length (registered mc), sh_name = name, sh_schema = schemaObject opts,
                     sh_indexes = (case indexes opts of None \<Rightarrow> [] | Some is \<Rightarrow> is),
                     sh_connection = historyConnection opts\<rparr>
            in (Model h, mc\<lparr>historyModels := obj_set (historyModels mc) name h,
                             registered := registered mc @ [h]\<rparr>))"
  using assms unfolding HistoryModel_def Let_def
  by (simp add: map_of_obj_set)

text \<open>
  C10, at an input where the code departs from it. The test \<open>collectionName in
  historyModels\<close> is true of a name that the cache inherits as a plain object: for the
  collection name \<open>constructor\<close> the first call registers nothing and returns no model.
\<close>

theorem inherited_name_gets_no_model:
  "HistoryModel ''constructor'' plain_options \<lparr>historyModels = [], registered = []\<rparr> =
     (Inherited ''constructor'', \<lparr>historyModels = [], registered = []\<rparr>)"
  unfolding plain_options_def
  by code_simp

end
